theory Spec2Isabelle
  imports Main
begin

section \<open>Values shared by the service and the dialogs\<close>

text \<open>
  A JavaScript \<^verbatim>\<open>throw\<close> (or a rejected promise) carries an arbitrary value. The code
  only ever asks two things of it: \<^verbatim>\<open>err instanceof Error\<close> and \<^verbatim>\<open>err.message\<close>. So a
  thrown value is either an \<^verbatim>\<open>Error\<close> instance with its message (the empty string when
  the error was built without one), or any other value.
\<close>

datatype thrown = ErrorInstance string | OtherValue

type_synonym blob = string

text \<open>
  The browser's \<^verbatim>\<open>File\<close> and the repository's \<^verbatim>\<open>ImageFile\<close> (\<^verbatim>\<open>{file, base64}\<close>; the
  field \<^verbatim>\<open>file\<close> is \<open>file_obj\<close> here).
\<close>

record File =
  name :: string
  type :: string
  bits :: blob

record ImageFile =
  file_obj :: File
  base64 :: string

text \<open>Template literals print numbers in decimal.\<close>

fun string_of_nat :: "nat \<Rightarrow> string" where
  "string_of_nat n =
     (if n < 10 then [''0123456789'' ! n]
      else string_of_nat (n div 10) @ [''0123456789'' ! (n mod 10)])"

declare string_of_nat.simps [simp del]

text \<open>
  A string of the model is the UTF-8 encoding of the JavaScript string.
  \<^verbatim>\<open>String.prototype.trim\<close> strips, from both ends, every code point that is white space
  or a line terminator of ECMAScript: U+0009 to U+000D, U+0020, U+00A0, U+1680, U+2000 to
  U+200A, U+2028, U+2029, U+202F, U+205F, U+3000 and U+FEFF. \<open>white_space\<close> lists their
  encodings. No encoding is the beginning or the end of another code point's encoding, so
  stripping encodings from the ends of the bytes strips these code points.
\<close>

definition white_space :: "string list" where
  "white_space =
     [[CHR 0x09], [CHR 0x0A], [CHR 0x0B], [CHR 0x0C], [CHR 0x0D], [CHR 0x20],
      [CHR 0xC2, CHR 0xA0],
      [CHR 0xE1, CHR 0x9A, CHR 0x80],
      [CHR 0xE2, CHR 0x80, CHR 0x80], [CHR 0xE2, CHR 0x80, CHR 0x81],
      [CHR 0xE2, CHR 0x80, CHR 0x82], [CHR 0xE2, CHR 0x80, CHR 0x83],
      [CHR 0xE2, CHR 0x80, CHR 0x84], [CHR 0xE2, CHR 0x80, CHR 0x85],
      [CHR 0xE2, CHR 0x80, CHR 0x86], [CHR 0xE2, CHR 0x80, CHR 0x87],
      [CHR 0xE2, CHR 0x80, CHR 0x88], [CHR 0xE2, CHR 0x80, CHR 0x89],
      [CHR 0xE2, CHR 0x80, CHR 0x8A],
      [CHR 0xE2, CHR 0x80, CHR 0xA8], [CHR 0xE2, CHR 0x80, CHR 0xA9],
      [CHR 0xE2, CHR 0x80, CHR 0xAF],
      [CHR 0xE2, CHR 0x81, CHR 0x9F],
      [CHR 0xE3, CHR 0x80, CHR 0x80],
      [CHR 0xEF, CHR 0xBB, CHR 0xBF]]"

text \<open>Strip from the front every leading occurrence of one of the byte sequences \<open>ws\<close>.\<close>

fun strip :: "string list \<Rightarrow> string \<Rightarrow> string" where
  "strip ws [] = []"
| "strip ws (c # s) =
     (if [c] \<in> set ws then strip ws s
      else if take 2 (c # s) \<in> set ws then strip ws (drop 1 s)
      else if take 3 (c # s) \<in> set ws then strip ws (drop 2 s)
      else c # s)"

definition trimStart :: "string \<Rightarrow> string" where
  "trimStart s = strip white_space s"

definition trimEnd :: "string \<Rightarrow> string" where
  "trimEnd s = rev (strip (map rev white_space) (rev s))"

definition trim :: "string \<Rightarrow> string" where
  "trim s = trimEnd (trimStart s)"


section \<open>The video service: \<^verbatim>\<open>generateVideo\<close> (services/geminiService.ts)\<close>

subsection \<open>Request data\<close>

datatype GenerationMode = TEXT_TO_VIDEO | FRAMES_TO_VIDEO | REFERENCES_TO_VIDEO | EXTEND_VIDEO

text \<open>The SDK's \<^verbatim>\<open>Video\<close> handle; the code reads only its \<^verbatim>\<open>uri\<close>.\<close>

record Video =
  uri :: "string option"
  videoBytes :: "string option"

text \<open>
  \<^verbatim>\<open>GenerateVideoParams\<close> is declared in types.ts; the fields are those that
  \<^verbatim>\<open>generateVideo\<close> reads. A field that the code tests for truthiness before use is
  optional here (\<open>None\<close> is \<^verbatim>\<open>undefined\<close> or \<^verbatim>\<open>null\<close>).
\<close>

record GenerateVideoParams =
  prompt :: "string option"
  model :: string
  aspectRatio :: "string option"
  resolution :: "string option"
  mode :: GenerationMode
  startFrame :: "ImageFile option"
  endFrame :: "ImageFile option"
  referenceImages :: "ImageFile list option"
  styleImage :: "ImageFile option"
  inputVideoObject :: "Video option"
  isLooping :: "bool option"

text \<open>The payload handed to \<^verbatim>\<open>ai.models.generateVideos\<close>; an absent property is \<open>None\<close>.\<close>

record Image =
  imageBytes :: string
  mimeType :: string

datatype VideoGenerationReferenceType = ASSET | STYLE

record VideoGenerationReferenceImage =
  ref_image :: Image
  referenceType :: VideoGenerationReferenceType

record Config =
  numberOfVideos :: nat
  config_resolution :: "string option"
  config_aspectRatio :: "string option"
  lastFrame :: "Image option"
  config_referenceImages :: "VideoGenerationReferenceImage list option"

record Payload =
  payload_model :: string
  payload_config :: Config
  payload_prompt :: "string option"
  payload_image :: "Image option"
  payload_video :: "Video option"

subsection \<open>Provider data\<close>

record GeneratedVideo =
  video :: "Video option"

record GenerateVideosResponse =
  generatedVideos :: "GeneratedVideo list option"

text \<open>
  The operation handle. \<^verbatim>\<open>done\<close> is optional in the SDK; the loop tests
  \<^verbatim>\<open>!operation.done\<close>, which holds for \<^verbatim>\<open>undefined\<close> and for \<^verbatim>\<open>false\<close>.
\<close>

record Operation =
  op_name :: string
  op_done :: "bool option"
  response :: "GenerateVideosResponse option"

text \<open>A \<^verbatim>\<open>fetch\<close> response; \<^verbatim>\<open>res.ok\<close> is by the Fetch standard a status in 200..299.\<close>

record Response =
  http_status :: nat
  statusText :: string
  body :: blob

definition ok :: "Response \<Rightarrow> bool" where
  "ok res = (200 \<le> http_status res \<and> http_status res \<le> 299)"

text \<open>What \<^verbatim>\<open>generateVideo\<close> returns: \<^verbatim>\<open>{objectUrl, blob, uri, video}\<close>.\<close>

record VideoResult =
  objectUrl :: string
  result_blob :: blob
  result_uri :: string
  result_video :: Video

subsection \<open>Image-provider data (\<^verbatim>\<open>generateContent\<close>)\<close>

text \<open>
  \<^verbatim>\<open>response.candidates[0].content.parts\<close> and \<^verbatim>\<open>part.inlineData.data\<close>: every level
  is optional in the SDK, and reading through a missing level throws a \<^verbatim>\<open>TypeError\<close>.
\<close>

record Part =
  inlineData :: "string option"

record Content =
  parts :: "Part list option"

record Candidate =
  content :: "Content option"

record GenerateContentResponse =
  candidates :: "Candidate list option"

subsection \<open>The world outside the repository\<close>

text \<open>
  The SDK, the browser and the process environment are parameters of the model. A call
  either throws (rejects) or returns. \<^verbatim>\<open>getVideosOperation\<close> is given the number of
  polls made before it, so that the provider may answer the same handle differently over
  time; \<^verbatim>\<open>generateContent\<close> is given the slot of the call for the same reason.
  \<^verbatim>\<open>typeErrorText\<close> is the engine's message for a \<^verbatim>\<open>TypeError\<close>. The constructor of the
  SDK client and \<^verbatim>\<open>res.blob()\<close> are taken to succeed, and the console output is left out.
\<close>

record env =
  API_KEY :: string
  generateVideos :: "Payload \<Rightarrow> thrown + Operation"
  getVideosOperation :: "nat \<Rightarrow> Operation \<Rightarrow> thrown + Operation"
  decodeURIComponent :: "string \<Rightarrow> thrown + string"
  fetch :: "string \<Rightarrow> thrown + Response"
  createObjectURL :: "blob \<Rightarrow> string"
  generateContent :: "string \<Rightarrow> nat \<Rightarrow> thrown + GenerateContentResponse"
  typeErrorText :: string

text \<open>
  The effects outside the function, in the order they happen: the calls that leave the
  process, and the waits of \<^verbatim>\<open>setTimeout\<close> (in milliseconds).
\<close>

datatype net_call =
    SubmitGeneration Payload
  | Wait nat
  | PollOperation Operation
  | FetchAsset string

subsection \<open>Building the request (generateVideo, lines 23 to 109)\<close>

definition imageOf :: "ImageFile \<Rightarrow> Image" where
  "imageOf f = \<lparr>imageBytes = base64 f, mimeType = type (file_obj f)\<rparr>"

definition truthy :: "string option \<Rightarrow> bool" where
  "truthy s = (case s of None \<Rightarrow> False | Some t \<Rightarrow> t \<noteq> [])"

definition buildPayload :: "GenerateVideoParams \<Rightarrow> thrown + Payload" where
  "buildPayload params =
     (let config = \<lparr>numberOfVideos = 1,
                     config_resolution = resolution params,
                     config_aspectRatio =
                       (if mode params \<noteq> EXTEND_VIDEO then aspectRatio params else None),
                     lastFrame = None,
                     config_referenceImages = None\<rparr>;
          generateVideoPayload =
            \<lparr>payload_model = model params,
             payload_config = config,
             payload_prompt = (if truthy (prompt params) then prompt params else None),
             payload_image = None,
             payload_video = None\<rparr>
      in
      if mode params = FRAMES_TO_VIDEO then
        (let withImage =
               (case startFrame params of
                  Some sf \<Rightarrow> generateVideoPayload\<lparr>payload_image := Some (imageOf sf)\<rparr>
                | None \<Rightarrow> generateVideoPayload);
             finalEndFrame =
               (if isLooping params = Some True then startFrame params else endFrame params)
         in Inr (case finalEndFrame of
                   Some fe \<Rightarrow>
                     withImage\<lparr>payload_config :=
                       (payload_config withImage)\<lparr>lastFrame := Some (imageOf fe)\<rparr>\<rparr>
                 | None \<Rightarrow> withImage))
      else if mode params = REFERENCES_TO_VIDEO then
        (let assets =
               (case referenceImages params of
                  Some imgs \<Rightarrow>
                    map (\<lambda>img. \<lparr>ref_image = imageOf img, referenceType = ASSET\<rparr>) imgs
                | None \<Rightarrow> []);
             referenceImagesPayload =
               (case styleImage params of
                  Some s \<Rightarrow> assets @ [\<lparr>ref_image = imageOf s, referenceType = STYLE\<rparr>]
                | None \<Rightarrow> assets)
         in Inr (if length referenceImagesPayload > 0
                 then generateVideoPayload\<lparr>payload_config :=
                        (payload_config generateVideoPayload)
                          \<lparr>config_referenceImages := Some referenceImagesPayload\<rparr>\<rparr>
                 else generateVideoPayload))
      else if mode params = EXTEND_VIDEO then
        (case inputVideoObject params of
           Some v \<Rightarrow> Inr (generateVideoPayload\<lparr>payload_video := Some v\<rparr>)
         | None \<Rightarrow>
             Inl (ErrorInstance ''An input video object is required to extend a video.''))
      else Inr generateVideoPayload)"

subsection \<open>Polling (lines 115 to 119)\<close>

text \<open>
  The loop has no bound: it runs until the provider reports completion or a call throws.
  The model returns \<open>None\<close> when it never returns. \<open>k\<close> counts the polls made so far and
  \<open>tr\<close> is the trace of outside calls.
\<close>

partial_function (option) poll_loop ::
  "env \<Rightarrow> nat \<Rightarrow> Operation \<Rightarrow> net_call list \<Rightarrow> ((thrown + Operation) \<times> net_call list) option"
where
  "poll_loop e k operation tr =
     (if op_done operation \<noteq> Some True then
        (case getVideosOperation e k operation of
           Inl err \<Rightarrow> Some (Inl err, tr @ [Wait 10000, PollOperation operation])
         | Inr operation' \<Rightarrow>
             poll_loop e (Suc k) operation' (tr @ [Wait 10000, PollOperation operation]))
      else Some (Inr operation, tr))"

declare poll_loop.simps [code]

subsection \<open>Reading the result and fetching the asset (lines 121 to 151)\<close>

definition fetchVideo ::
  "env \<Rightarrow> Video \<Rightarrow> string \<Rightarrow> net_call list \<Rightarrow> (thrown + VideoResult) \<times> net_call list"
where
  "fetchVideo e videoObject u tr =
     (case decodeURIComponent e u of
        Inl err \<Rightarrow> (Inl err, tr)
      | Inr url \<Rightarrow>
          (let tr' = tr @ [FetchAsset (url @ ''&key='' @ API_KEY e)] in
           case fetch e (url @ ''&key='' @ API_KEY e) of
             Inl err \<Rightarrow> (Inl err, tr')
           | Inr res \<Rightarrow>
               if \<not> ok res then
                 (Inl (ErrorInstance
                    (''Failed to fetch video: '' @ string_of_nat (http_status res)
                       @ '' '' @ statusText res)), tr')
               else
                 (Inr \<lparr>objectUrl = createObjectURL e (body res),
                       result_blob = body res,
                       result_uri = url,
                       result_video = videoObject\<rparr>, tr')))"

definition readResult ::
  "env \<Rightarrow> Operation \<Rightarrow> net_call list \<Rightarrow> (thrown + VideoResult) \<times> net_call list"
where
  "readResult e operation tr =
     (case response operation of
        None \<Rightarrow> (Inl (ErrorInstance ''No videos generated.''), tr)
      | Some r \<Rightarrow>
          (case generatedVideos r of
             None \<Rightarrow> (Inl (ErrorInstance ''No videos were generated.''), tr)
           | Some [] \<Rightarrow> (Inl (ErrorInstance ''No videos were generated.''), tr)
           | Some (firstVideo # rest) \<Rightarrow>
               (case video firstVideo of
                  None \<Rightarrow> (Inl (ErrorInstance ''Generated video is missing a URI.''), tr)
                | Some videoObject \<Rightarrow>
                    if \<not> truthy (uri videoObject)
                    then (Inl (ErrorInstance ''Generated video is missing a URI.''), tr)
                    else fetchVideo e videoObject (the (uri videoObject)) tr)))"

subsection \<open>\<^verbatim>\<open>generateVideo\<close>\<close>

text \<open>
  The result is \<open>None\<close> when the call never returns, and otherwise the value returned or
  thrown together with the outside calls made, in order.
\<close>

definition generateVideo ::
  "env \<Rightarrow> GenerateVideoParams \<Rightarrow> ((thrown + VideoResult) \<times> net_call list) option"
where
  "generateVideo e params =
     (case buildPayload params of
        Inl err \<Rightarrow> Some (Inl err, [])
      | Inr generateVideoPayload \<Rightarrow>
          (case generateVideos e generateVideoPayload of
             Inl err \<Rightarrow> Some (Inl err, [SubmitGeneration generateVideoPayload])
           | Inr operation \<Rightarrow>
               (case poll_loop e 0 operation [SubmitGeneration generateVideoPayload] of
                  None \<Rightarrow> None
                | Some (Inl err, tr) \<Rightarrow> Some (Inl err, tr)
                | Some (Inr operation', tr) \<Rightarrow> Some (readResult e operation' tr))))"


section \<open>Image generation\<close>

subsection \<open>One generation call\<close>

text \<open>
  \<^verbatim>\<open>base64ToImageFile\<close> is defined twice in the repository (in the service and in the
  live-status dialog), with the same body: it fetches the data URL, takes the blob and
  wraps it in a \<^verbatim>\<open>File\<close>. The status of the response is not tested.
\<close>

definition base64ToImageFile :: "env \<Rightarrow> string \<Rightarrow> nat \<Rightarrow> thrown + ImageFile" where
  "base64ToImageFile e b64 index =
     (case fetch e (''data:image/png;base64,'' @ b64) of
        Inl err \<Rightarrow> Inl err
      | Inr res \<Rightarrow>
          Inr \<lparr>file_obj = \<lparr>name = ''generated-image-'' @ string_of_nat index @ ''.png'',
                           type = ''image/png'',
                           bits = body res\<rparr>,
                base64 = b64\<rparr>)"

text \<open>\<^verbatim>\<open>response.candidates[0].content.parts\<close>, with the \<^verbatim>\<open>TypeError\<close> of each missing level.\<close>

definition responseParts :: "env \<Rightarrow> GenerateContentResponse \<Rightarrow> thrown + Part list" where
  "responseParts e resp =
     (case candidates resp of
        None \<Rightarrow> Inl (ErrorInstance (typeErrorText e))
      | Some [] \<Rightarrow> Inl (ErrorInstance (typeErrorText e))
      | Some (c # rest) \<Rightarrow>
          (case content c of
             None \<Rightarrow> Inl (ErrorInstance (typeErrorText e))
           | Some ct \<Rightarrow>
               (case parts ct of
                  None \<Rightarrow> Inl (ErrorInstance (typeErrorText e))
                | Some ps \<Rightarrow> Inr ps)))"

text \<open>The \<^verbatim>\<open>for (const part of ...)\<close> loop: the data of the first part that has any.\<close>

fun firstInlineData :: "Part list \<Rightarrow> string option" where
  "firstInlineData [] = None"
| "firstInlineData (part # rest) =
     (case inlineData part of
        Some d \<Rightarrow> Some d
      | None \<Rightarrow> firstInlineData rest)"

text \<open>
  The promise that \<^verbatim>\<open>generateImages\<close> builds for slot \<open>i\<close> (service, lines 175 to 195):
  what it settles with.
\<close>

definition imagePromise :: "env \<Rightarrow> string \<Rightarrow> nat \<Rightarrow> thrown + ImageFile" where
  "imagePromise e p i =
     (case generateContent e p i of
        Inl err \<Rightarrow> Inl err
      | Inr resp \<Rightarrow>
          (case responseParts e resp of
             Inl err \<Rightarrow> Inl err
           | Inr ps \<Rightarrow>
               (case firstInlineData ps of
                  Some base64ImageBytes \<Rightarrow> base64ToImageFile e base64ImageBytes i
                | None \<Rightarrow>
                    Inl (ErrorInstance
                      (''Image generation failed for image '' @ string_of_nat (i + 1)
                         @ ''. No image data returned.'')))))"

subsection \<open>\<^verbatim>\<open>Promise.all\<close> and \<^verbatim>\<open>generateImages\<close> (service, lines 166 to 201)\<close>

text \<open>
  The event loop is single-threaded: the calls are all issued by the \<^verbatim>\<open>for\<close> loop, and
  then they settle one at a time, in an order the code does not control. A run is described
  by the list of the slots that have settled so far, in the order they settled.

  \<^verbatim>\<open>Promise.all\<close> keeps the values fulfilled so far. It fulfils with all the values, in
  slot order, when the last one arrives; it rejects with the reason of the first promise
  that rejects, at once; a settled promise never changes. On an empty array it fulfils
  with the empty array.
\<close>

datatype 'a promise = Pending | Fulfilled 'a | Rejected thrown

definition promise_all_init :: "nat \<Rightarrow> 'a option list \<times> 'a list promise" where
  "promise_all_init n = (replicate n None, if n = 0 then Fulfilled [] else Pending)"

definition promise_all_step ::
  "(nat \<Rightarrow> thrown + 'a) \<Rightarrow> 'a option list \<times> 'a list promise \<Rightarrow> nat
     \<Rightarrow> 'a option list \<times> 'a list promise"
where
  "promise_all_step outcome st i =
     (case outcome i of
        Inl err \<Rightarrow>
          (fst st, case snd st of Pending \<Rightarrow> Rejected err | r \<Rightarrow> r)
      | Inr v \<Rightarrow>
          (let vals = (fst st)[i := Some v] in
           (vals,
            case snd st of
              Pending \<Rightarrow> if None \<in> set vals then Pending else Fulfilled (map the vals)
            | r \<Rightarrow> r)))"

text \<open>
  A run of \<^verbatim>\<open>generateImages\<close>: the \<^verbatim>\<open>generateContent\<close> calls made (prompt and slot, in
  order), the state of each promise of the array \<^verbatim>\<open>imagePromises\<close>, and the
  \<^verbatim>\<open>Promise.all\<close> over them.
\<close>

record images_run =
  requests :: "(string \<times> nat) list"
  imagePromises :: "ImageFile promise list"
  awaited :: "ImageFile option list \<times> ImageFile list promise"

text \<open>
  The \<^verbatim>\<open>for\<close> loop (lines 172 to 197) makes all the calls and pushes their promises
  before anything is awaited; line 199 then builds the \<^verbatim>\<open>Promise.all\<close>.
\<close>

definition startImages :: "string \<Rightarrow> nat \<Rightarrow> images_run" where
  "startImages p n =
     \<lparr>requests = map (\<lambda>i. (p, i)) [0..<n],
      imagePromises = replicate n Pending,
      awaited = promise_all_init n\<rparr>"

text \<open>The promise of slot \<open>i\<close> settles: it takes its state, and \<^verbatim>\<open>Promise.all\<close> reacts.\<close>

definition promiseSettles :: "env \<Rightarrow> string \<Rightarrow> images_run \<Rightarrow> nat \<Rightarrow> images_run" where
  "promiseSettles e p run i =
     run\<lparr>imagePromises :=
           (imagePromises run)
             [i := (case imagePromise e p i of
                      Inl err \<Rightarrow> Rejected err
                    | Inr imageFile \<Rightarrow> Fulfilled imageFile)],
         awaited := promise_all_step (imagePromise e p) (awaited run) i\<rparr>"

definition generateImages_run :: "env \<Rightarrow> string \<Rightarrow> nat \<Rightarrow> nat list \<Rightarrow> images_run" where
  "generateImages_run e p n settled = foldl (promiseSettles e p) (startImages p n) settled"

text \<open>
  \<^verbatim>\<open>generateImages\<close> awaits \<^verbatim>\<open>Promise.all(imagePromises)\<close> and returns its value, or
  throws its rejection. The model gives the state of that await once the slots in
  \<open>settled\<close> have settled: \<open>Pending\<close> is "has not returned yet".
\<close>

definition generateImages :: "env \<Rightarrow> string \<Rightarrow> nat \<Rightarrow> nat list \<Rightarrow> ImageFile list promise" where
  "generateImages e p n settled = snd (awaited (generateImages_run e p n settled))"

subsection \<open>The live-status dialog: state\<close>

text \<open>
  A JavaScript array may have holes, and reads \<^verbatim>\<open>undefined\<close> beyond its end. Copying with
  the spread syntax turns holes into \<^verbatim>\<open>undefined\<close> elements; assigning beyond the end
  extends the array and leaves holes in between; \<^verbatim>\<open>filter\<close> skips holes, and its callback
  throws a \<^verbatim>\<open>TypeError\<close> when it reads a property of \<^verbatim>\<open>undefined\<close>.
\<close>

datatype 'a cell = Hole | Undef | Item 'a

definition spread :: "'a cell list \<Rightarrow> 'a cell list" where
  "spread xs = map (\<lambda>c. case c of Hole \<Rightarrow> Undef | Undef \<Rightarrow> Undef | Item v \<Rightarrow> Item v) xs"

definition assign :: "'a cell list \<Rightarrow> nat \<Rightarrow> 'a \<Rightarrow> 'a cell list" where
  "assign xs i v =
     (if i < length xs then xs[i := Item v]
      else xs @ replicate (i - length xs) Hole @ [Item v])"

definition at :: "'a cell list \<Rightarrow> nat \<Rightarrow> 'a option" where
  "at xs i =
     (if i < length xs then (case xs ! i of Item v \<Rightarrow> Some v | Hole \<Rightarrow> None | Undef \<Rightarrow> None)
      else None)"

datatype GenerationStatus = idle | generating | finished

datatype ResultStatus = st_pending | st_success | st_error

record GenerationResult =
  status :: ResultStatus
  data :: "ImageFile option"
  error :: "string option"

text \<open>
  The state of the component (\<^verbatim>\<open>useState\<close>), and the calls made to the
  \<^verbatim>\<open>onImagesGenerated\<close> callback, which is taken to return normally.
\<close>

record dialog =
  dlg_prompt :: string
  numberOfImages :: nat
  generationStatus :: GenerationStatus
  generationResults :: "GenerationResult cell list"
  selectedIndices :: "nat list"
  imagesGenerated :: "ImageFile list list"

subsection \<open>The live-status dialog: \<^verbatim>\<open>handleGenerate\<close> (lines 52 to 111)\<close>

text \<open>The promise of slot \<open>i\<close> before its \<^verbatim>\<open>.catch\<close> (lines 70 to 95).\<close>

definition slotOutcome :: "env \<Rightarrow> string \<Rightarrow> nat \<Rightarrow> thrown + ImageFile" where
  "slotOutcome e p i =
     (case generateContent e p i of
        Inl err \<Rightarrow> Inl err
      | Inr resp \<Rightarrow>
          (case responseParts e resp of
             Inl err \<Rightarrow> Inl err
           | Inr ps \<Rightarrow>
               (case firstInlineData ps of
                  Some base64ImageBytes \<Rightarrow> base64ToImageFile e base64ImageBytes i
                | None \<Rightarrow> Inl (ErrorInstance ''No image data returned.''))))"

text \<open>The updater \<^verbatim>\<open>prev => { const newResults = [...prev]; newResults[i] = r; ... }\<close>.\<close>

definition setResult ::
  "nat \<Rightarrow> GenerationResult \<Rightarrow> GenerationResult cell list \<Rightarrow> GenerationResult cell list"
where
  "setResult i r prev = assign (spread prev) i r"

definition errorMessage :: "thrown \<Rightarrow> string" where
  "errorMessage err =
     (case err of
        ErrorInstance m \<Rightarrow> m
      | OtherValue \<Rightarrow> ''An unknown error occurred.'')"

text \<open>
  What the handlers of slot \<open>i\<close> do to the state when its call settles: the success branch
  of \<^verbatim>\<open>.then\<close> (lines 84 to 92) or the \<^verbatim>\<open>.catch\<close> (lines 96 to 105).
\<close>

definition settle :: "env \<Rightarrow> string \<Rightarrow> dialog \<Rightarrow> nat \<Rightarrow> dialog" where
  "settle e p st i =
     (case slotOutcome e p i of
        Inr imageFile \<Rightarrow>
          st\<lparr>generationResults :=
                setResult i \<lparr>status = st_success, data = Some imageFile, error = None\<rparr>
                  (generationResults st),
             imagesGenerated := imagesGenerated st @ [[imageFile]]\<rparr>
      | Inl err \<Rightarrow>
          st\<lparr>generationResults :=
                setResult i \<lparr>status = st_error, data = None, error = Some (errorMessage err)\<rparr>
                  (generationResults st)\<rparr>)"

text \<open>
  \<^verbatim>\<open>handleGenerate\<close>, seen once the slots in \<open>settled\<close> have settled, in that order.
  \<^verbatim>\<open>Array(n).fill({status: 'pending'})\<close> puts one shared object in every slot; the
  handlers replace slots and never mutate that object, so the sharing is not observable.
  \<^verbatim>\<open>Promise.allSettled\<close> lets the function go on to its last line when each of the
  \<open>numberOfImages\<close> promises has settled.
\<close>

definition handleGenerate :: "env \<Rightarrow> nat list \<Rightarrow> dialog \<Rightarrow> dialog" where
  "handleGenerate e settled st =
     (if trim (dlg_prompt st) = [] then
        st\<lparr>generationResults :=
              [Item \<lparr>status = st_error, data = None,
                     error = Some ''Please enter a prompt to generate images.''\<rparr>],
           generationStatus := finished\<rparr>
      else
        (let started =
               st\<lparr>generationStatus := generating,
                  selectedIndices := [],
                  generationResults :=
                    replicate (numberOfImages st)
                      (Item \<lparr>status = st_pending, data = None, error = None\<rparr>)\<rparr>;
             now = foldl (settle e (dlg_prompt st)) started settled
         in if list_all (\<lambda>i. i \<in> set settled) [0..<numberOfImages st]
            then now\<lparr>generationStatus := finished\<rparr>
            else now))"

subsection \<open>The live-status dialog: \<^verbatim>\<open>toggleSelection\<close> (lines 113 to 128)\<close>

text \<open>\<^verbatim>\<open>generationResults.filter(r => r.status === 'success').length\<close>.\<close>

fun countSuccess :: "env \<Rightarrow> GenerationResult cell list \<Rightarrow> thrown + nat" where
  "countSuccess e [] = Inr 0"
| "countSuccess e (Hole # rs) = countSuccess e rs"
| "countSuccess e (Undef # rs) = Inl (ErrorInstance (typeErrorText e))"
| "countSuccess e (Item r # rs) =
     (case countSuccess e rs of
        Inl err \<Rightarrow> Inl err
      | Inr n \<Rightarrow> Inr (if status r = st_success then Suc n else n))"

text \<open>
  \<open>maxImagesToAdd\<close> is a property of the component. The result is the new state, or the
  error thrown by the state updater.
\<close>

definition toggleSelection_live :: "env \<Rightarrow> int \<Rightarrow> nat \<Rightarrow> dialog \<Rightarrow> thrown + dialog" where
  "toggleSelection_live e maxImagesToAdd index st =
     (if map_option status (at (generationResults st) index) \<noteq> Some st_success then Inr st
      else
        (let prev = selectedIndices st in
         if index \<in> set prev then
           Inr (st\<lparr>selectedIndices := filter (\<lambda>i. i \<noteq> index) prev\<rparr>)
         else
           (case countSuccess e (generationResults st) of
              Inl err \<Rightarrow> Inl err
            | Inr successfulImagesCount \<Rightarrow>
                (let maxCanSelect = min maxImagesToAdd (int successfulImagesCount) in
                 if int (length prev) < maxCanSelect
                 then Inr (st\<lparr>selectedIndices := prev @ [index]\<rparr>)
                 else Inr st))))"

subsection \<open>The gallery dialog and the simple generation dialog: \<^verbatim>\<open>toggleSelection\<close>\<close>

text \<open>ImageGalleryDialog, the updater of \<^verbatim>\<open>setSelectedIndices\<close>.\<close>

definition toggleSelection_gallery :: "int \<Rightarrow> nat \<Rightarrow> nat list \<Rightarrow> nat list" where
  "toggleSelection_gallery maxSelectable index prev =
     (if index \<in> set prev then filter (\<lambda>i. i \<noteq> index) prev
      else if int (length prev) < maxSelectable then prev @ [index]
      else prev)"

text \<open>components/ImageGenerationDialog.tsx, lines 60 to 71.\<close>

definition toggleSelection_dialog :: "int \<Rightarrow> nat \<Rightarrow> nat list \<Rightarrow> nat list" where
  "toggleSelection_dialog maxImagesToAdd index prev =
     (if index \<in> set prev then filter (\<lambda>i. i \<noteq> index) prev
      else if int (length prev) < maxImagesToAdd then prev @ [index]
      else prev)"

subsection \<open>The live-status dialog: the prompt field (line 231)\<close>

definition setPrompt :: "string \<Rightarrow> dialog \<Rightarrow> dialog" where
  "setPrompt v st = st\<lparr>dlg_prompt := v\<rparr>"

section \<open>Notions used in the statements\<close>

text \<open>
  The object that the handlers of a slot store for an outcome, and the object that
  \<^verbatim>\<open>handleGenerate\<close> puts in every slot at the start.
\<close>

definition slotResult :: "thrown + ImageFile \<Rightarrow> GenerationResult" where
  "slotResult out =
     (case out of
        Inr imageFile \<Rightarrow> \<lparr>status = st_success, data = Some imageFile, error = None\<rparr>
      | Inl err \<Rightarrow> \<lparr>status = st_error, data = None, error = Some (errorMessage err)\<rparr>)"

definition pendingResult :: GenerationResult where
  "pendingResult = \<lparr>status = st_pending, data = None, error = None\<rparr>"

text \<open>
  The selection of the live-status dialog is in order when every selected index is the
  index of a slot whose status is \<^verbatim>\<open>'success'\<close>, and the number of selected indices is at
  most the smaller of \<open>maxImagesToAdd\<close> and the number of such slots.
\<close>

definition selection_ok :: "env \<Rightarrow> int \<Rightarrow> dialog \<Rightarrow> bool" where
  "selection_ok e maxImagesToAdd st =
     (list_all (\<lambda>i. map_option status (at (generationResults st) i) = Some st_success)
        (selectedIndices st)
      \<and> (case countSuccess e (generationResults st) of
           Inl err \<Rightarrow> False
         | Inr n \<Rightarrow> int (length (selectedIndices st)) \<le> min maxImagesToAdd (int n)))"

section \<open>Concrete inputs\<close>

text \<open>A small provider and request, used to run the definitions on concrete inputs.\<close>

definition demo_image :: ImageFile where
  "demo_image = \<lparr>file_obj = \<lparr>name = ''start.png'', type = ''image/png'', bits = ''PNG''\<rparr>,
                  base64 = ''UE5H''\<rparr>"

definition demo_params :: GenerateVideoParams where
  "demo_params =
     \<lparr>prompt = Some ''a cat'', model = ''veo'', aspectRatio = Some ''16:9'',
      resolution = Some ''720p'', mode = TEXT_TO_VIDEO, startFrame = None, endFrame = None,
      referenceImages = None, styleImage = None, inputVideoObject = None,
      isLooping = None\<rparr>"

definition demo_operation :: "bool \<Rightarrow> GenerateVideosResponse option \<Rightarrow> Operation" where
  "demo_operation d r = \<lparr>op_name = ''operations/1'', op_done = Some d, response = r\<rparr>"

definition demo_video :: Video where
  "demo_video = \<lparr>uri = Some ''https://host/v.mp4?alt=media'', videoBytes = None\<rparr>"

definition demo_env :: env where
  "demo_env =
     \<lparr>API_KEY = ''KEY'',
      generateVideos = (\<lambda>p. Inr (demo_operation False None)),
      getVideosOperation =
        (\<lambda>k operation.
           if k = 0 then Inr (demo_operation False None)
           else Inr (demo_operation True
                  (Some \<lparr>generatedVideos = Some [\<lparr>video = Some demo_video\<rparr>]\<rparr>))),
      decodeURIComponent = (\<lambda>u. Inr u),
      fetch = (\<lambda>u. Inr \<lparr>http_status = 200, statusText = ''OK'', body = ''BYTES''\<rparr>),
      createObjectURL = (\<lambda>b. ''blob:1''),
      generateContent =
        (\<lambda>p i. Inr \<lparr>candidates =
                  Some [\<lparr>content = Some \<lparr>parts = Some [\<lparr>inlineData = Some ''QUJD''\<rparr>]\<rparr>\<rparr>]\<rparr>),
      typeErrorText = ''Cannot read properties of undefined''\<rparr>"

definition demo_done :: "GenerateVideosResponse option \<Rightarrow> nat \<Rightarrow> string \<Rightarrow> env" where
  "demo_done r code reason =
     demo_env\<lparr>generateVideos := (\<lambda>p. Inr (demo_operation True r)),
              fetch := (\<lambda>u. Inr \<lparr>http_status = code, statusText = reason, body = ''BYTES''\<rparr>)\<rparr>"

definition demo_dialog :: "nat \<Rightarrow> dialog" where
  "demo_dialog n =
     \<lparr>dlg_prompt = ''a cat'', numberOfImages = n, generationStatus = idle,
      generationResults = [], selectedIndices = [], imagesGenerated = []\<rparr>"

definition demo_generated :: "nat \<Rightarrow> ImageFile" where
  "demo_generated i =
     \<lparr>file_obj = \<lparr>name = ''generated-image-'' @ string_of_nat i @ ''.png'',
                   type = ''image/png'', bits = ''BYTES''\<rparr>,
      base64 = ''QUJD''\<rparr>"

definition demo_failing :: "nat \<Rightarrow> thrown \<Rightarrow> env" where
  "demo_failing k err =
     demo_env\<lparr>generateContent :=
       (\<lambda>p i. if i = k then Inl err else generateContent demo_env p i)\<rparr>"

definition demo_finished :: dialog where
  "demo_finished = handleGenerate demo_env [0, 1] (demo_dialog 2)"


section \<open>Properties of \<^verbatim>\<open>generateVideo\<close>\<close>

text \<open>
  Claim C3. A request in mode \<^verbatim>\<open>EXTEND_VIDEO\<close> without an input video object makes
  \<^verbatim>\<open>generateVideo\<close> throw the validation error, and the trace of outside calls is empty:
  nothing was submitted, polled or fetched.
\<close>
theorem extend_requires_video:
  assumes "mode params = EXTEND_VIDEO" and "inputVideoObject params = None"
  shows "generateVideo e params =
           Some (Inl (ErrorInstance ''An input video object is required to extend a video.''), [])"
  using assms by (simp add: generateVideo_def buildPayload_def)

theorem extend_requires_video_witness:
  "mode (demo_params\<lparr>mode := EXTEND_VIDEO\<rparr>) = EXTEND_VIDEO
   \<and> inputVideoObject (demo_params\<lparr>mode := EXTEND_VIDEO\<rparr>) = None
   \<and> generateVideo demo_env (demo_params\<lparr>mode := EXTEND_VIDEO\<rparr>) =
       Some (Inl (ErrorInstance ''An input video object is required to extend a video.''), [])"
  using extend_requires_video [of "demo_params\<lparr>mode := EXTEND_VIDEO\<rparr>" demo_env]
  by (simp add: demo_params_def)

lemma poll_loop_unset:
  "op_done operation \<noteq> Some True \<Longrightarrow>
   poll_loop e k operation tr =
     (case getVideosOperation e k operation of
        Inl err \<Rightarrow> Some (Inl err, tr @ [Wait 10000, PollOperation operation])
      | Inr operation' \<Rightarrow>
          poll_loop e (Suc k) operation' (tr @ [Wait 10000, PollOperation operation]))"
  by (subst poll_loop.simps) simp

lemma poll_loop_set:
  "op_done operation = Some True \<Longrightarrow> poll_loop e k operation tr = Some (Inr operation, tr)"
  by (subst poll_loop.simps) simp

text \<open>
  Claim C4. While the completion flag is unset the loop waits 10000 ms and fetches the
  operation again (first conjunct). When the operation returned by the submission and the one returned by
  the first poll are not done and the one returned by the second poll is, the loop is left
  with that third handle after exactly two polls, each after a wait of 10000 ms, and the
  result is read from it: with a first generated video that has a URI and a fetch that
  succeeds, \<^verbatim>\<open>generateVideo\<close> returns that first video and its bytes.
\<close>
theorem poll_until_third_check:
  assumes "buildPayload params = Inr p"
    and "generateVideos e p = Inr op0" and "op_done op0 \<noteq> Some True"
    and "getVideosOperation e 0 op0 = Inr op1" and "op_done op1 \<noteq> Some True"
    and "getVideosOperation e 1 op1 = Inr op2" and "op_done op2 = Some True"
  shows "(\<forall>k operation tr. op_done operation \<noteq> Some True \<longrightarrow>
            poll_loop e k operation tr =
              (case getVideosOperation e k operation of
                 Inl err \<Rightarrow> Some (Inl err, tr @ [Wait 10000, PollOperation operation])
               | Inr operation' \<Rightarrow>
                   poll_loop e (Suc k) operation' (tr @ [Wait 10000, PollOperation operation])))
         \<and> poll_loop e 0 op0 [SubmitGeneration p] =
           Some (Inr op2, [SubmitGeneration p, Wait 10000, PollOperation op0,
                           Wait 10000, PollOperation op1])
         \<and> generateVideo e params =
             Some (readResult e op2 [SubmitGeneration p, Wait 10000, PollOperation op0,
                                     Wait 10000, PollOperation op1])
         \<and> (\<forall>r v vs vo u url res.
              response op2 = Some r \<and> generatedVideos r = Some (v # vs) \<and> video v = Some vo
              \<and> uri vo = Some u \<and> u \<noteq> [] \<and> decodeURIComponent e u = Inr url
              \<and> fetch e (url @ ''&key='' @ API_KEY e) = Inr res \<and> ok res
              \<longrightarrow> generateVideo e params =
                    Some (Inr \<lparr>objectUrl = createObjectURL e (body res), result_blob = body res,
                               result_uri = url, result_video = vo\<rparr>,
                          [SubmitGeneration p, Wait 10000, PollOperation op0,
                           Wait 10000, PollOperation op1,
                           FetchAsset (url @ ''&key='' @ API_KEY e)]))"
proof -
  let ?tr = "[SubmitGeneration p, Wait 10000, PollOperation op0, Wait 10000, PollOperation op1]"
  have loop: "poll_loop e 0 op0 [SubmitGeneration p] = Some (Inr op2, ?tr)"
    using assms by (simp add: poll_loop_unset poll_loop_set)
  have gen: "generateVideo e params = Some (readResult e op2 ?tr)"
    using assms(1,2) loop by (simp add: generateVideo_def)
  have "generateVideo e params =
          Some (Inr \<lparr>objectUrl = createObjectURL e (body res), result_blob = body res,
                     result_uri = url, result_video = vo\<rparr>,
                ?tr @ [FetchAsset (url @ ''&key='' @ API_KEY e)])"
    if "response op2 = Some r" "generatedVideos r = Some (v # vs)" "video v = Some vo"
       "uri vo = Some u" "u \<noteq> []" "decodeURIComponent e u = Inr url"
       "fetch e (url @ ''&key='' @ API_KEY e) = Inr res" "ok res"
    for r v vs vo u url res
    using that gen by (simp add: readResult_def fetchVideo_def truthy_def)
  with loop gen poll_loop_unset [of _ e] show ?thesis by simp
qed

theorem poll_until_third_check_witness:
  "buildPayload demo_params = Inr (projr (buildPayload demo_params))
   \<and> generateVideo demo_env demo_params =
       Some (Inr \<lparr>objectUrl = ''blob:1'', result_blob = ''BYTES'',
                  result_uri = ''https://host/v.mp4?alt=media'', result_video = demo_video\<rparr>,
             [SubmitGeneration (projr (buildPayload demo_params)),
              Wait 10000, PollOperation (demo_operation False None),
              Wait 10000, PollOperation (demo_operation False None),
              FetchAsset ''https://host/v.mp4?alt=media&key=KEY''])"
proof -
  let ?p = "projr (buildPayload demo_params)"
  let ?op2 = "demo_operation True (Some \<lparr>generatedVideos = Some [\<lparr>video = Some demo_video\<rparr>]\<rparr>)"
  let ?res = "\<lparr>http_status = 200, statusText = ''OK'', body = ''BYTES''\<rparr>"
  have b: "buildPayload demo_params = Inr ?p"
    by (simp add: buildPayload_def demo_params_def)
  have h: "generateVideos demo_env ?p = Inr (demo_operation False None)"
    "op_done (demo_operation False None) \<noteq> Some True"
    "getVideosOperation demo_env 0 (demo_operation False None) = Inr (demo_operation False None)"
    "getVideosOperation demo_env 1 (demo_operation False None) = Inr ?op2"
    "op_done ?op2 = Some True"
    by (simp_all add: demo_env_def demo_operation_def)
  have r: "response ?op2 = Some \<lparr>generatedVideos = Some [\<lparr>video = Some demo_video\<rparr>]\<rparr>
      \<and> generatedVideos \<lparr>generatedVideos = Some [\<lparr>video = Some demo_video\<rparr>]\<rparr>
          = Some (\<lparr>video = Some demo_video\<rparr> # [])
      \<and> video \<lparr>video = Some demo_video\<rparr> = Some demo_video
      \<and> uri demo_video = Some ''https://host/v.mp4?alt=media''
      \<and> ''https://host/v.mp4?alt=media'' \<noteq> []
      \<and> decodeURIComponent demo_env ''https://host/v.mp4?alt=media''
          = Inr ''https://host/v.mp4?alt=media''
      \<and> fetch demo_env (''https://host/v.mp4?alt=media'' @ ''&key='' @ API_KEY demo_env) = Inr ?res
      \<and> ok ?res"
    by (simp add: demo_env_def demo_operation_def demo_video_def ok_def)
  from poll_until_third_check [OF b h(1) h(2) h(3) h(2) h(4) h(5), THEN conjunct2] r
  have "generateVideo demo_env demo_params =
      Some (Inr \<lparr>objectUrl = createObjectURL demo_env (body ?res), result_blob = body ?res,
                 result_uri = ''https://host/v.mp4?alt=media'', result_video = demo_video\<rparr>,
            [SubmitGeneration ?p, Wait 10000, PollOperation (demo_operation False None),
             Wait 10000, PollOperation (demo_operation False None),
             FetchAsset (''https://host/v.mp4?alt=media'' @ ''&key='' @ API_KEY demo_env)])"
    by blast
  then show ?thesis using b by (simp add: demo_env_def)
qed

text \<open>
  Claim C5. Once the loop has ended with a completed operation: a missing response gives
  the error "No videos generated."; a missing or empty list of generated videos gives
  "No videos were generated."; a first video without a (non-empty) URI gives "Generated
  video is missing a URI."; a fetch answered with a status outside 200..299 gives
  "Failed to fetch video: " followed by the status code and the reason text; and
  \<^verbatim>\<open>generateVideo\<close> returns a value only if the list is non-empty, its first video has a
  URI, and the fetch of it was answered with a status in 200..299.
\<close>
theorem terminal_result:
  assumes "buildPayload params = Inr p" and "generateVideos e p = Inr op0"
    and "poll_loop e 0 op0 [SubmitGeneration p] = Some (Inr operation, tr)"
  shows "(response operation = None \<longrightarrow>
            generateVideo e params = Some (Inl (ErrorInstance ''No videos generated.''), tr))
       \<and> (\<forall>r. response operation = Some r
               \<and> (generatedVideos r = None \<or> generatedVideos r = Some []) \<longrightarrow>
            generateVideo e params = Some (Inl (ErrorInstance ''No videos were generated.''), tr))
       \<and> (\<forall>r v vs. response operation = Some r \<and> generatedVideos r = Some (v # vs)
               \<and> (video v = None \<or> (\<exists>vo. video v = Some vo \<and> (uri vo = None \<or> uri vo = Some []))) \<longrightarrow>
            generateVideo e params =
              Some (Inl (ErrorInstance ''Generated video is missing a URI.''), tr))
       \<and> (\<forall>r v vs vo u url res. response operation = Some r \<and> generatedVideos r = Some (v # vs)
               \<and> video v = Some vo \<and> uri vo = Some u \<and> u \<noteq> []
               \<and> decodeURIComponent e u = Inr url
               \<and> fetch e (url @ ''&key='' @ API_KEY e) = Inr res
               \<and> (http_status res < 200 \<or> 299 < http_status res) \<longrightarrow>
            generateVideo e params =
              Some (Inl (ErrorInstance (''Failed to fetch video: '' @ string_of_nat (http_status res)
                                          @ '' '' @ statusText res)),
                    tr @ [FetchAsset (url @ ''&key='' @ API_KEY e)]))
       \<and> (\<forall>vr tr'. generateVideo e params = Some (Inr vr, tr') \<longrightarrow>
            (\<exists>r v vs u url res. response operation = Some r \<and> generatedVideos r = Some (v # vs)
               \<and> video v = Some (result_video vr) \<and> uri (result_video vr) = Some u \<and> u \<noteq> []
               \<and> decodeURIComponent e u = Inr url
               \<and> fetch e (url @ ''&key='' @ API_KEY e) = Inr res
               \<and> 200 \<le> http_status res \<and> http_status res \<le> 299
               \<and> result_blob vr = body res \<and> result_uri vr = url))"
proof -
  have gen: "generateVideo e params = Some (readResult e operation tr)"
    using assms by (simp add: generateVideo_def)
  have c1: "response operation = None \<longrightarrow>
            generateVideo e params = Some (Inl (ErrorInstance ''No videos generated.''), tr)"
    by (simp add: gen readResult_def)
  have c2: "\<forall>r. response operation = Some r
               \<and> (generatedVideos r = None \<or> generatedVideos r = Some []) \<longrightarrow>
            generateVideo e params = Some (Inl (ErrorInstance ''No videos were generated.''), tr)"
    by (auto simp add: gen readResult_def)
  have c3: "\<forall>r v vs. response operation = Some r \<and> generatedVideos r = Some (v # vs)
               \<and> (video v = None \<or> (\<exists>vo. video v = Some vo \<and> (uri vo = None \<or> uri vo = Some []))) \<longrightarrow>
            generateVideo e params =
              Some (Inl (ErrorInstance ''Generated video is missing a URI.''), tr)"
    by (auto simp add: gen readResult_def truthy_def)
  have c4: "\<forall>r v vs vo u url res. response operation = Some r \<and> generatedVideos r = Some (v # vs)
               \<and> video v = Some vo \<and> uri vo = Some u \<and> u \<noteq> []
               \<and> decodeURIComponent e u = Inr url
               \<and> fetch e (url @ ''&key='' @ API_KEY e) = Inr res
               \<and> (http_status res < 200 \<or> 299 < http_status res) \<longrightarrow>
            generateVideo e params =
              Some (Inl (ErrorInstance (''Failed to fetch video: '' @ string_of_nat (http_status res)
                                          @ '' '' @ statusText res)),
                    tr @ [FetchAsset (url @ ''&key='' @ API_KEY e)])"
    by (auto simp add: gen readResult_def truthy_def fetchVideo_def ok_def)
  have c5: "\<forall>vr tr'. generateVideo e params = Some (Inr vr, tr') \<longrightarrow>
            (\<exists>r v vs u url res. response operation = Some r \<and> generatedVideos r = Some (v # vs)
               \<and> video v = Some (result_video vr) \<and> uri (result_video vr) = Some u \<and> u \<noteq> []
               \<and> decodeURIComponent e u = Inr url
               \<and> fetch e (url @ ''&key='' @ API_KEY e) = Inr res
               \<and> 200 \<le> http_status res \<and> http_status res \<le> 299
               \<and> result_blob vr = body res \<and> result_uri vr = url)"
    by (auto simp add: gen readResult_def truthy_def fetchVideo_def ok_def Let_def
          split: option.splits list.splits sum.splits if_splits)
  from c1 c2 c3 c4 c5 show ?thesis by blast
qed

lemma demo_payload: "buildPayload demo_params = Inr (projr (buildPayload demo_params))"
  by (simp add: buildPayload_def demo_params_def)

lemma demo_done_run:
  "generateVideos (demo_done r code reason) p = Inr (demo_operation True r)"
  "poll_loop (demo_done r code reason) 0 (demo_operation True r) [SubmitGeneration p]
     = Some (Inr (demo_operation True r), [SubmitGeneration p])"
  by (simp_all add: demo_done_def demo_operation_def poll_loop_set)

lemma generateVideo_run:
  "buildPayload params = Inr p \<Longrightarrow> generateVideos e p = Inr op0 \<Longrightarrow>
   poll_loop e 0 op0 [SubmitGeneration p] = Some (Inr operation, tr) \<Longrightarrow>
   generateVideo e params = Some (readResult e operation tr)"
  by (simp add: generateVideo_def)

theorem terminal_result_witness:
  "generateVideo (demo_done None 200 ''OK'') demo_params =
     Some (Inl (ErrorInstance ''No videos generated.''),
           [SubmitGeneration (projr (buildPayload demo_params))])
   \<and> generateVideo (demo_done (Some \<lparr>generatedVideos = Some []\<rparr>) 200 ''OK'') demo_params =
     Some (Inl (ErrorInstance ''No videos were generated.''),
           [SubmitGeneration (projr (buildPayload demo_params))])
   \<and> generateVideo
       (demo_done (Some \<lparr>generatedVideos = Some [\<lparr>video = Some (demo_video\<lparr>uri := None\<rparr>)\<rparr>]\<rparr>)
          200 ''OK'') demo_params =
     Some (Inl (ErrorInstance ''Generated video is missing a URI.''),
           [SubmitGeneration (projr (buildPayload demo_params))])
   \<and> generateVideo
       (demo_done (Some \<lparr>generatedVideos = Some [\<lparr>video = Some demo_video\<rparr>]\<rparr>)
          404 ''Not Found'') demo_params =
     Some (Inl (ErrorInstance ''Failed to fetch video: 404 Not Found''),
           [SubmitGeneration (projr (buildPayload demo_params)),
            FetchAsset ''https://host/v.mp4?alt=media&key=KEY''])
   \<and> (\<exists>r v vs u url res.
         response (demo_operation True (Some \<lparr>generatedVideos = Some [\<lparr>video = Some demo_video\<rparr>]\<rparr>))
           = Some r
         \<and> generatedVideos r = Some (v # vs) \<and> video v = Some demo_video
         \<and> uri demo_video = Some u \<and> u \<noteq> []
         \<and> decodeURIComponent
             (demo_done (Some \<lparr>generatedVideos = Some [\<lparr>video = Some demo_video\<rparr>]\<rparr>) 200 ''OK'') u
             = Inr url
         \<and> fetch (demo_done (Some \<lparr>generatedVideos = Some [\<lparr>video = Some demo_video\<rparr>]\<rparr>) 200 ''OK'')
             (url @ ''&key='' @ ''KEY'') = Inr res
         \<and> 200 \<le> http_status res \<and> http_status res \<le> 299 \<and> ''BYTES'' = body res)"
proof -
  let ?p = "projr (buildPayload demo_params)"
  let ?vids = "Some \<lparr>generatedVideos = Some [\<lparr>video = Some demo_video\<rparr>]\<rparr>"
  let ?nouri = "Some \<lparr>generatedVideos = Some [\<lparr>video = Some (demo_video\<lparr>uri := None\<rparr>)\<rparr>]\<rparr>"
  note t = terminal_result [OF demo_payload demo_done_run]
  have 1: "generateVideo (demo_done None 200 ''OK'') demo_params =
     Some (Inl (ErrorInstance ''No videos generated.''), [SubmitGeneration ?p])"
    using t [of None 200 "''OK''"] by (simp add: demo_operation_def)
  have 2: "generateVideo (demo_done (Some \<lparr>generatedVideos = Some []\<rparr>) 200 ''OK'') demo_params =
     Some (Inl (ErrorInstance ''No videos were generated.''), [SubmitGeneration ?p])"
    using t [of "Some \<lparr>generatedVideos = Some []\<rparr>" 200 "''OK''"]
    by (simp add: demo_operation_def)
  have 3: "generateVideo (demo_done ?nouri 200 ''OK'') demo_params =
     Some (Inl (ErrorInstance ''Generated video is missing a URI.''), [SubmitGeneration ?p])"
    using t [of ?nouri 200 "''OK''"]
    by (simp add: demo_operation_def)
  have "response (demo_operation True ?vids) = Some \<lparr>generatedVideos = Some [\<lparr>video = Some demo_video\<rparr>]\<rparr>
      \<and> generatedVideos \<lparr>generatedVideos = Some [\<lparr>video = Some demo_video\<rparr>]\<rparr>
           = Some (\<lparr>video = Some demo_video\<rparr> # [])
      \<and> video \<lparr>video = Some demo_video\<rparr> = Some demo_video
      \<and> uri demo_video = Some ''https://host/v.mp4?alt=media''
      \<and> ''https://host/v.mp4?alt=media'' \<noteq> []
      \<and> decodeURIComponent (demo_done ?vids 404 ''Not Found'') ''https://host/v.mp4?alt=media''
           = Inr ''https://host/v.mp4?alt=media''
      \<and> fetch (demo_done ?vids 404 ''Not Found'')
           (''https://host/v.mp4?alt=media'' @ ''&key='' @ API_KEY (demo_done ?vids 404 ''Not Found''))
           = Inr \<lparr>http_status = 404, statusText = ''Not Found'', body = ''BYTES''\<rparr>
      \<and> (http_status \<lparr>http_status = 404, statusText = ''Not Found'', body = ''BYTES''\<rparr> < 200
          \<or> 299 < http_status \<lparr>http_status = 404, statusText = ''Not Found'', body = ''BYTES''\<rparr>)"
    by (simp add: demo_operation_def demo_done_def demo_env_def demo_video_def)
  with t [of ?vids 404 "''Not Found''"]
  have "generateVideo (demo_done ?vids 404 ''Not Found'') demo_params =
     Some (Inl (ErrorInstance (''Failed to fetch video: ''
             @ string_of_nat (http_status \<lparr>http_status = 404, statusText = ''Not Found'', body = ''BYTES''\<rparr>)
             @ '' '' @ statusText \<lparr>http_status = 404, statusText = ''Not Found'', body = ''BYTES''\<rparr>)),
           [SubmitGeneration ?p] @ [FetchAsset (''https://host/v.mp4?alt=media'' @ ''&key=''
              @ API_KEY (demo_done ?vids 404 ''Not Found''))])"
    by blast
  then have 4: "generateVideo (demo_done ?vids 404 ''Not Found'') demo_params =
     Some (Inl (ErrorInstance ''Failed to fetch video: 404 Not Found''),
           [SubmitGeneration ?p, FetchAsset ''https://host/v.mp4?alt=media&key=KEY''])"
    by (simp add: string_of_nat.simps demo_done_def demo_env_def)
  have ok: "generateVideo (demo_done ?vids 200 ''OK'') demo_params =
     Some (Inr \<lparr>objectUrl = ''blob:1'', result_blob = ''BYTES'',
                result_uri = ''https://host/v.mp4?alt=media'', result_video = demo_video\<rparr>,
           [SubmitGeneration ?p, FetchAsset ''https://host/v.mp4?alt=media&key=KEY''])"
    by (subst generateVideo_run [OF demo_payload demo_done_run])
      (simp add: readResult_def fetchVideo_def truthy_def ok_def demo_operation_def
         demo_video_def demo_done_def demo_env_def)
  from t [of ?vids 200 "''OK''"]
  have imp: "\<forall>vr tr'. generateVideo (demo_done ?vids 200 ''OK'') demo_params = Some (Inr vr, tr') \<longrightarrow>
            (\<exists>r v vs u url res. response (demo_operation True ?vids) = Some r
               \<and> generatedVideos r = Some (v # vs)
               \<and> video v = Some (result_video vr) \<and> uri (result_video vr) = Some u \<and> u \<noteq> []
               \<and> decodeURIComponent (demo_done ?vids 200 ''OK'') u = Inr url
               \<and> fetch (demo_done ?vids 200 ''OK'')
                    (url @ ''&key='' @ API_KEY (demo_done ?vids 200 ''OK'')) = Inr res
               \<and> 200 \<le> http_status res \<and> http_status res \<le> 299
               \<and> result_blob vr = body res \<and> result_uri vr = url)"
    by (elim conjE)
  have key: "API_KEY (demo_done ?vids 200 ''OK'') = ''KEY''"
    by (simp add: demo_done_def demo_env_def)
  from imp [rule_format, OF ok]
  have 5: "\<exists>r v vs u url res.
         response (demo_operation True ?vids) = Some r
         \<and> generatedVideos r = Some (v # vs) \<and> video v = Some demo_video
         \<and> uri demo_video = Some u \<and> u \<noteq> []
         \<and> decodeURIComponent (demo_done ?vids 200 ''OK'') u = Inr url
         \<and> fetch (demo_done ?vids 200 ''OK'') (url @ ''&key='' @ ''KEY'') = Inr res
         \<and> 200 \<le> http_status res \<and> http_status res \<le> 299 \<and> ''BYTES'' = body res"
    unfolding key by auto
  from 1 2 3 4 5 show ?thesis by blast
qed

text \<open>
  Claim C6. In mode \<^verbatim>\<open>FRAMES_TO_VIDEO\<close>: with the looping flag set, a start frame and no
  end frame, the request is built and its \<^verbatim>\<open>lastFrame\<close> is the start frame (the same image
  as the request's \<^verbatim>\<open>image\<close>); with the looping flag unset, \<^verbatim>\<open>lastFrame\<close> is the explicit
  end frame when there is one and is absent otherwise.
\<close>
theorem looping_end_frame:
  assumes "mode params = FRAMES_TO_VIDEO"
  shows "(\<forall>sf. isLooping params = Some True \<and> startFrame params = Some sf \<and> endFrame params = None
            \<longrightarrow> (\<exists>p. buildPayload params = Inr p
                   \<and> lastFrame (payload_config p) = Some (imageOf sf)
                   \<and> payload_image p = Some (imageOf sf)))
       \<and> (isLooping params \<noteq> Some True
            \<longrightarrow> (\<exists>p. buildPayload params = Inr p
                   \<and> lastFrame (payload_config p) = map_option imageOf (endFrame params)))"
  using assms by (auto simp add: buildPayload_def Let_def split: option.splits)

theorem looping_end_frame_witness:
  "(\<exists>p. buildPayload (demo_params\<lparr>mode := FRAMES_TO_VIDEO, isLooping := Some True,
                                   startFrame := Some demo_image\<rparr>) = Inr p
       \<and> lastFrame (payload_config p) = Some \<lparr>imageBytes = ''UE5H'', mimeType = ''image/png''\<rparr>
       \<and> payload_image p = Some \<lparr>imageBytes = ''UE5H'', mimeType = ''image/png''\<rparr>)
   \<and> (\<exists>p. buildPayload (demo_params\<lparr>mode := FRAMES_TO_VIDEO, isLooping := Some False,
                                     endFrame := Some demo_image\<rparr>) = Inr p
       \<and> lastFrame (payload_config p) = Some \<lparr>imageBytes = ''UE5H'', mimeType = ''image/png''\<rparr>)
   \<and> (\<exists>p. buildPayload (demo_params\<lparr>mode := FRAMES_TO_VIDEO\<rparr>) = Inr p
       \<and> lastFrame (payload_config p) = None)"
  using looping_end_frame [of "demo_params\<lparr>mode := FRAMES_TO_VIDEO, isLooping := Some True,
                                   startFrame := Some demo_image\<rparr>"]
    looping_end_frame [of "demo_params\<lparr>mode := FRAMES_TO_VIDEO, isLooping := Some False,
                                     endFrame := Some demo_image\<rparr>"]
    looping_end_frame [of "demo_params\<lparr>mode := FRAMES_TO_VIDEO\<rparr>"]
  by (simp add: demo_params_def demo_image_def imageOf_def)

text \<open>
  Claim C7. In every built request the aspect ratio is absent when the mode is
  \<^verbatim>\<open>EXTEND_VIDEO\<close>, and is the supplied aspect ratio in each of the other three modes.
\<close>
theorem aspect_ratio_by_mode:
  assumes "buildPayload params = Inr p"
  shows "(mode params = EXTEND_VIDEO \<longrightarrow> config_aspectRatio (payload_config p) = None)
       \<and> (\<forall>a. mode params \<in> {TEXT_TO_VIDEO, FRAMES_TO_VIDEO, REFERENCES_TO_VIDEO}
               \<and> aspectRatio params = Some a
            \<longrightarrow> config_aspectRatio (payload_config p) = Some a)"
  using assms
  by (auto simp add: buildPayload_def Let_def split: option.splits if_splits)

theorem aspect_ratio_by_mode_witness:
  "config_aspectRatio (payload_config (projr (buildPayload
       (demo_params\<lparr>mode := EXTEND_VIDEO, inputVideoObject := Some demo_video\<rparr>)))) = None
   \<and> config_aspectRatio (payload_config (projr (buildPayload demo_params))) = Some ''16:9''
   \<and> config_aspectRatio (payload_config (projr (buildPayload
       (demo_params\<lparr>mode := FRAMES_TO_VIDEO\<rparr>)))) = Some ''16:9''
   \<and> config_aspectRatio (payload_config (projr (buildPayload
       (demo_params\<lparr>mode := REFERENCES_TO_VIDEO\<rparr>)))) = Some ''16:9''"
proof -
  have b: "buildPayload (demo_params\<lparr>mode := EXTEND_VIDEO, inputVideoObject := Some demo_video\<rparr>)
             = Inr (projr (buildPayload
                 (demo_params\<lparr>mode := EXTEND_VIDEO, inputVideoObject := Some demo_video\<rparr>)))"
    "buildPayload demo_params = Inr (projr (buildPayload demo_params))"
    "buildPayload (demo_params\<lparr>mode := FRAMES_TO_VIDEO\<rparr>)
       = Inr (projr (buildPayload (demo_params\<lparr>mode := FRAMES_TO_VIDEO\<rparr>)))"
    "buildPayload (demo_params\<lparr>mode := REFERENCES_TO_VIDEO\<rparr>)
       = Inr (projr (buildPayload (demo_params\<lparr>mode := REFERENCES_TO_VIDEO\<rparr>)))"
    by (simp_all add: buildPayload_def demo_params_def)
  have m: "mode (demo_params\<lparr>mode := EXTEND_VIDEO, inputVideoObject := Some demo_video\<rparr>) = EXTEND_VIDEO"
    "mode demo_params = TEXT_TO_VIDEO" "aspectRatio demo_params = Some ''16:9''"
    by (simp_all add: demo_params_def)
  show ?thesis
    using aspect_ratio_by_mode [OF b(1)] aspect_ratio_by_mode [OF b(2)]
      aspect_ratio_by_mode [OF b(3)] aspect_ratio_by_mode [OF b(4)] m
    by simp
qed


section \<open>Properties of the selection in the gallery and in the simple dialog\<close>

text \<open>
  Claim C8. In the gallery dialog: when the number of selected items equals
  \<open>maxSelectable\<close>, toggling an item that is not selected leaves the selection as it is;
  toggling a selected item always removes it, and the selection gets shorter; when fewer
  than \<open>maxSelectable\<close> items are selected, toggling an item that is not selected appends
  it; so after a deselection at the maximum a new item can be selected again. The simple
  generation dialog has the same function, with \<open>maxImagesToAdd\<close> as the maximum.
\<close>
theorem selection_cap:
  "(int (length prev) = maxSelectable \<and> index \<notin> set prev \<longrightarrow>
      toggleSelection_gallery maxSelectable index prev = prev)
   \<and> (index \<in> set prev \<longrightarrow>
        toggleSelection_gallery maxSelectable index prev = filter (\<lambda>i. i \<noteq> index) prev
        \<and> index \<notin> set (toggleSelection_gallery maxSelectable index prev)
        \<and> length (toggleSelection_gallery maxSelectable index prev) < length prev)
   \<and> (int (length prev) < maxSelectable \<and> index \<notin> set prev \<longrightarrow>
        toggleSelection_gallery maxSelectable index prev = prev @ [index])
   \<and> (int (length prev) = maxSelectable \<and> j \<in> set prev \<and> index \<notin> set prev \<longrightarrow>
        toggleSelection_gallery maxSelectable index (toggleSelection_gallery maxSelectable j prev)
          = filter (\<lambda>i. i \<noteq> j) prev @ [index])
   \<and> toggleSelection_dialog maxSelectable index prev
        = toggleSelection_gallery maxSelectable index prev"
proof -
  have less: "length (filter (\<lambda>i. i \<noteq> x) xs) < length xs" if "x \<in> set xs" for x :: nat and xs
    using that by (intro length_filter_less) auto
  have a: "int (length prev) = maxSelectable \<and> index \<notin> set prev \<longrightarrow>
      toggleSelection_gallery maxSelectable index prev = prev"
    by (simp add: toggleSelection_gallery_def)
  have b: "index \<in> set prev \<longrightarrow>
        toggleSelection_gallery maxSelectable index prev = filter (\<lambda>i. i \<noteq> index) prev
        \<and> index \<notin> set (toggleSelection_gallery maxSelectable index prev)
        \<and> length (toggleSelection_gallery maxSelectable index prev) < length prev"
    using less [of index prev] by (simp add: toggleSelection_gallery_def)
  have c: "int (length prev) < maxSelectable \<and> index \<notin> set prev \<longrightarrow>
        toggleSelection_gallery maxSelectable index prev = prev @ [index]"
    by (simp add: toggleSelection_gallery_def)
  have d: "int (length prev) = maxSelectable \<and> j \<in> set prev \<and> index \<notin> set prev \<longrightarrow>
        toggleSelection_gallery maxSelectable index (toggleSelection_gallery maxSelectable j prev)
          = filter (\<lambda>i. i \<noteq> j) prev @ [index]"
    using less [of j prev] by (auto simp add: toggleSelection_gallery_def)
  have e: "toggleSelection_dialog maxSelectable index prev
        = toggleSelection_gallery maxSelectable index prev"
    by (simp add: toggleSelection_gallery_def toggleSelection_dialog_def)
  from a b c d e show ?thesis by blast
qed

theorem selection_cap_witness:
  "toggleSelection_gallery 2 5 [0, 1] = [0, 1]
   \<and> toggleSelection_gallery 2 0 [0, 1] = [1]
   \<and> toggleSelection_gallery 2 5 [1] = [1, 5]
   \<and> toggleSelection_gallery 2 5 (toggleSelection_gallery 2 0 [0, 1]) = [1, 5]
   \<and> toggleSelection_dialog 2 5 [0, 1] = [0, 1]"
proof -
  have 1: "toggleSelection_gallery 2 5 [0, 1] = [0, 1]"
    using selection_cap [of "[0, 1]" 2 5] by simp
  have 2: "toggleSelection_gallery 2 0 [0, 1] = [1]"
    using selection_cap [of "[0, 1]" 2 0] by simp
  have 3: "toggleSelection_gallery 2 5 [1] = [1, 5]"
    using selection_cap [of "[1]" 2 5] by simp
  have 4: "toggleSelection_gallery 2 5 (toggleSelection_gallery 2 0 [0, 1]) = [1, 5]"
    using selection_cap [of "[0, 1]" 2 5 0] by simp
  have 5: "toggleSelection_dialog 2 5 [0, 1] = [0, 1]"
    using selection_cap [of "[0, 1]" 2 5] by simp
  from 1 2 3 4 5 show ?thesis by blast
qed


section \<open>Properties of \<^verbatim>\<open>generateImages\<close>\<close>

lemma find_snoc:
  "find P (xs @ [y]) = (case find P xs of Some x \<Rightarrow> Some x | None \<Rightarrow> if P y then Some y else None)"
  by (induction xs) simp_all

lemma promise_all_step_pair:
  "promise_all_step out (vals, r) i =
     (case out i of
        Inl err \<Rightarrow> (vals, case r of Pending \<Rightarrow> Rejected err | Fulfilled x \<Rightarrow> r | Rejected x \<Rightarrow> r)
      | Inr v \<Rightarrow>
          (vals[i := Some v],
           case r of
             Pending \<Rightarrow> if None \<in> set (vals[i := Some v]) then Pending
                        else Fulfilled (map the (vals[i := Some v]))
           | Fulfilled x \<Rightarrow> r | Rejected x \<Rightarrow> r))"
  by (simp add: promise_all_step_def Let_def split: promise.splits sum.splits)

lemma promise_all_fold:
  fixes out :: "nat \<Rightarrow> thrown + 'a"
  assumes "set settled \<subseteq> {0..<n}"
  shows "foldl (promise_all_step out) (promise_all_init n) settled =
           (map (\<lambda>j. if j \<in> set settled then (case out j of Inr v \<Rightarrow> Some v | Inl err \<Rightarrow> None)
                       else None) [0..<n],
            case find (\<lambda>i. isl (out i)) settled of
              Some i \<Rightarrow> Rejected (projl (out i))
            | None \<Rightarrow> if set settled = {0..<n}
                       then Fulfilled (map (\<lambda>i. projr (out i)) [0..<n]) else Pending)"
  using assms
proof (induction settled rule: rev_induct)
  case Nil
  show ?case by (auto simp add: promise_all_init_def map_replicate_trivial)
next
  case (snoc i settled)
  let ?vals = "\<lambda>s. map (\<lambda>j. if j \<in> set s then (case out j of Inr v \<Rightarrow> Some v | Inl err \<Rightarrow> None)
                       else None) [0..<n]"
  from snoc.prems have i: "i < n" and sub: "set settled \<subseteq> {0..<n}" by auto
  note IH = snoc.IH [OF sub]
  have st: "foldl (promise_all_step out) (promise_all_init n) (settled @ [i]) =
      promise_all_step out
        (?vals settled,
         case find (\<lambda>i. isl (out i)) settled of
           Some i \<Rightarrow> Rejected (projl (out i))
         | None \<Rightarrow> if set settled = {0..<n}
                    then Fulfilled (map (\<lambda>i. projr (out i)) [0..<n]) else Pending) i"
    by (simp add: IH)
  show ?case
  proof (cases "out i")
    case (Inl err)
    have vals: "?vals settled = ?vals (settled @ [i])"
      using Inl by auto
    show ?thesis
    proof (cases "find (\<lambda>i. isl (out i)) settled")
      case None
      then have "\<forall>x\<in>set settled. \<not> isl (out x)" by (simp add: find_None_iff)
      with Inl have "i \<notin> set settled" by auto
      with i have "set settled \<noteq> {0..<n}" by auto
      with None Inl show ?thesis
        by (subst st) (simp add: promise_all_step_pair find_snoc vals del: set_append)
    next
      case (Some k)
      with Inl show ?thesis
        by (subst st) (simp add: promise_all_step_pair find_snoc vals del: set_append)
    qed
  next
    case (Inr v)
    have vals: "(?vals settled)[i := Some v] = ?vals (settled @ [i])"
      using Inr i by (auto intro!: nth_equalityI simp add: nth_list_update)
    show ?thesis
    proof (cases "find (\<lambda>i. isl (out i)) settled")
      case (Some k)
      with Inr show ?thesis
        by (subst st) (simp add: promise_all_step_pair find_snoc vals del: set_append)
    next
      case None
      then have good: "\<forall>x\<in>set settled. \<not> isl (out x)" by (simp add: find_None_iff)
      have none: "find (\<lambda>i. isl (out i)) (settled @ [i]) = None"
        using None Inr by (simp add: find_snoc)
      show ?thesis
      proof (cases "set settled = {0..<n}")
        case True
        from i have "i \<in> {0..<n}" by simp
        then have "i \<in> set settled" by (simp only: True)
        then have "set (settled @ [i]) = set settled" by (simp add: insert_absorb)
        then have full: "set (settled @ [i]) = {0..<n}" by (simp only: True)
        have r: "(case find (\<lambda>i. isl (out i)) settled of
                    Some i \<Rightarrow> Rejected (projl (out i))
                  | None \<Rightarrow> if set settled = {0..<n}
                             then Fulfilled (map (\<lambda>i. projr (out i)) [0..<n]) else Pending)
                 = Fulfilled (map (\<lambda>i. projr (out i)) [0..<n])"
          unfolding None True by simp
        have A: "foldl (promise_all_step out) (promise_all_init n) (settled @ [i]) =
                promise_all_step out
                  (?vals settled, Fulfilled (map (\<lambda>i. projr (out i)) [0..<n])) i"
          by (subst st, subst r) (rule refl)
        have B: "promise_all_step out
                  (?vals settled, Fulfilled (map (\<lambda>i. projr (out i)) [0..<n])) i =
                ((?vals settled)[i := Some v], Fulfilled (map (\<lambda>i. projr (out i)) [0..<n]))"
          by (simp only: promise_all_step_pair Inr sum.case promise.case)
        have C: "(case find (\<lambda>i. isl (out i)) (settled @ [i]) of
               Some i \<Rightarrow> Rejected (projl (out i))
             | None \<Rightarrow> if set (settled @ [i]) = {0..<n}
                        then Fulfilled (map (\<lambda>i. projr (out i)) [0..<n]) else Pending)
             = Fulfilled (map (\<lambda>i. projr (out i)) [0..<n])"
          by (simp only: none option.case if_P [OF full])
        show ?thesis
          by (simp only: A B vals C)
      next
        case False
        have all: "None \<in> set (?vals (settled @ [i])) \<longleftrightarrow> set (settled @ [i]) \<noteq> {0..<n}"
        proof
          assume "None \<in> set (?vals (settled @ [i]))"
          then obtain j where j: "j < n"
            and "(if j \<in> set (settled @ [i])
                  then (case out j of Inr v \<Rightarrow> Some v | Inl err \<Rightarrow> None) else None) = None"
            by auto
          with good Inr have "j \<notin> set (settled @ [i])"
            by (auto split: if_splits sum.splits)
          show "set (settled @ [i]) \<noteq> {0..<n}"
          proof
            assume "set (settled @ [i]) = {0..<n}"
            moreover from j have "j \<in> {0..<n}" by simp
            ultimately have "j \<in> set (settled @ [i])" by (simp only:)
            with \<open>j \<notin> set (settled @ [i])\<close> show False by blast
          qed
        next
          assume ne: "set (settled @ [i]) \<noteq> {0..<n}"
          from snoc.prems have "set (settled @ [i]) \<subseteq> {0..<n}" .
          with ne have "\<exists>j. j \<in> {0..<n} \<and> j \<notin> set (settled @ [i])" by blast
          then obtain j where "j < n" "j \<notin> set (settled @ [i])" by auto
          then have "?vals (settled @ [i]) ! j = None" and "j < length (?vals (settled @ [i]))"
            by simp_all
          then show "None \<in> set (?vals (settled @ [i]))"
            by (metis nth_mem)
        qed
        have the_vals: "map the (?vals (settled @ [i])) = map (\<lambda>i. projr (out i)) [0..<n]"
          if "set (settled @ [i]) = {0..<n}"
        proof (rule nth_equalityI)
          show "length (map the (?vals (settled @ [i]))) = length (map (\<lambda>i. projr (out i)) [0..<n])"
            by simp
        next
          fix j assume "j < length (map the (?vals (settled @ [i])))"
          then have j: "j < n" by simp
          with that have "j \<in> set (settled @ [i])" by auto
          with good Inr have "\<not> isl (out j)" by auto
          then obtain w where "out j = Inr w" by (cases "out j") auto
          with j \<open>j \<in> set (settled @ [i])\<close>
          show "map the (?vals (settled @ [i])) ! j = map (\<lambda>i. projr (out i)) [0..<n] ! j"
            by simp
        qed
        from False None Inr
        have "foldl (promise_all_step out) (promise_all_init n) (settled @ [i]) =
                (?vals (settled @ [i]),
                 if None \<in> set (?vals (settled @ [i])) then Pending
                 else Fulfilled (map the (?vals (settled @ [i]))))"
          by (subst st) (simp add: promise_all_step_pair vals del: set_append)
        also have "\<dots> = (?vals (settled @ [i]),
                 if set (settled @ [i]) = {0..<n}
                 then Fulfilled (map (\<lambda>i. projr (out i)) [0..<n]) else Pending)"
        proof (cases "set (settled @ [i]) = {0..<n}")
          case T: True
          from all T have nn: "\<not> None \<in> set (?vals (settled @ [i]))" by blast
          show ?thesis by (simp only: if_not_P [OF nn] if_P [OF T] the_vals [OF T])
        next
          case F: False
          from all F have yes: "None \<in> set (?vals (settled @ [i]))" by blast
          show ?thesis by (simp only: if_P [OF yes] if_not_P [OF F])
        qed
        finally show ?thesis by (simp only: none option.case)
      qed
    qed
  qed
qed

lemma run_awaited:
  "awaited (foldl (promiseSettles e p) run settled) =
     foldl (promise_all_step (imagePromise e p)) (awaited run) settled"
  by (induction settled rule: rev_induct) (simp_all add: promiseSettles_def)

lemma run_requests: "requests (foldl (promiseSettles e p) run settled) = requests run"
  by (induction settled rule: rev_induct) (simp_all add: promiseSettles_def)

lemma run_promises:
  assumes "set settled \<subseteq> {0..<n}" and "imagePromises run = replicate n Pending"
  shows "imagePromises (foldl (promiseSettles e p) run settled) =
           map (\<lambda>i. if i \<in> set settled
                     then (case imagePromise e p i of
                             Inl err \<Rightarrow> Rejected err
                           | Inr imageFile \<Rightarrow> Fulfilled imageFile)
                     else Pending) [0..<n]"
  using assms(1)
proof (induction settled rule: rev_induct)
  case Nil
  show ?case by (simp add: assms(2) map_replicate_trivial)
next
  case (snoc i settled)
  then have i: "i < n" and sub: "set settled \<subseteq> {0..<n}" by auto
  have "imagePromises (foldl (promiseSettles e p) run (settled @ [i])) =
          (imagePromises (foldl (promiseSettles e p) run settled))
            [i := (case imagePromise e p i of
                     Inl err \<Rightarrow> Rejected err
                   | Inr imageFile \<Rightarrow> Fulfilled imageFile)]"
    by (simp add: promiseSettles_def)
  also have "\<dots> =
          map (\<lambda>j. if j \<in> set (settled @ [i])
                    then (case imagePromise e p j of
                            Inl err \<Rightarrow> Rejected err
                          | Inr imageFile \<Rightarrow> Fulfilled imageFile)
                    else Pending) [0..<n]"
    using i by (subst snoc.IH [OF sub]) (auto intro!: nth_equalityI simp add: nth_list_update)
  finally show ?case .
qed

text \<open>
  Claim C1, as amended. At any moment of a run, with the calls in \<open>settled\<close> settled in
  that order: \<^verbatim>\<open>generateImages\<close> has thrown the error of the first call that failed as soon
  as one call has failed, whatever the other calls do; otherwise it has returned the
  assets of all the calls, in slot order, if all of them have settled; and otherwise it
  has not returned yet. All the calls have been made, one for each slot; and the promise
  of each slot is pending until its call settles and then has the outcome of its own call,
  whether or not another call has failed and whether or not \<^verbatim>\<open>generateImages\<close> has
  already thrown: a failure does not cancel the other calls or change their outcomes.
\<close>
theorem generateImages_all_or_nothing:
  assumes "set settled \<subseteq> {0..<n}"
  shows "generateImages e p n settled =
           (case find (\<lambda>i. isl (imagePromise e p i)) settled of
              Some i \<Rightarrow> Rejected (projl (imagePromise e p i))
            | None \<Rightarrow>
                if set settled = {0..<n}
                then Fulfilled (map (\<lambda>i. projr (imagePromise e p i)) [0..<n])
                else Pending)
       \<and> requests (generateImages_run e p n settled) = map (\<lambda>i. (p, i)) [0..<n]
       \<and> length (imagePromises (generateImages_run e p n settled)) = n
       \<and> (\<forall>i<n. imagePromises (generateImages_run e p n settled) ! i =
             (if i \<in> set settled
              then (case imagePromise e p i of
                      Inl err \<Rightarrow> Rejected err
                    | Inr imageFile \<Rightarrow> Fulfilled imageFile)
              else Pending))"
proof -
  have a: "generateImages e p n settled =
           (case find (\<lambda>i. isl (imagePromise e p i)) settled of
              Some i \<Rightarrow> Rejected (projl (imagePromise e p i))
            | None \<Rightarrow>
                if set settled = {0..<n}
                then Fulfilled (map (\<lambda>i. projr (imagePromise e p i)) [0..<n])
                else Pending)"
    using assms
    by (simp add: generateImages_def generateImages_run_def run_awaited startImages_def
          promise_all_fold)
  have b: "requests (generateImages_run e p n settled) = map (\<lambda>i. (p, i)) [0..<n]"
    by (simp add: generateImages_run_def run_requests startImages_def)
  have c: "imagePromises (generateImages_run e p n settled) =
           map (\<lambda>i. if i \<in> set settled
                     then (case imagePromise e p i of
                             Inl err \<Rightarrow> Rejected err
                           | Inr imageFile \<Rightarrow> Fulfilled imageFile)
                     else Pending) [0..<n]"
    unfolding generateImages_run_def
    by (rule run_promises [OF assms]) (simp add: startImages_def)
  have d: "length (imagePromises (generateImages_run e p n settled)) = n"
    by (simp add: c)
  have e: "\<forall>i<n. imagePromises (generateImages_run e p n settled) ! i =
             (if i \<in> set settled
              then (case imagePromise e p i of
                      Inl err \<Rightarrow> Rejected err
                    | Inr imageFile \<Rightarrow> Fulfilled imageFile)
              else Pending)"
    by (simp add: c)
  from a b d e show ?thesis by (intro conjI)
qed

lemma demo_promise_ok: "i \<noteq> k \<Longrightarrow> imagePromise (demo_failing k err) p i = Inr (demo_generated i)"
  by (simp add: imagePromise_def demo_failing_def demo_env_def responseParts_def
        base64ToImageFile_def demo_generated_def)

lemma demo_promise_fails: "imagePromise (demo_failing k err) p k = Inl err"
  by (simp add: imagePromise_def demo_failing_def)

theorem generateImages_all_or_nothing_witness:
  "generateImages (demo_failing 2 OtherValue) ''a cat'' 2 [1, 0]
     = Fulfilled [demo_generated 0, demo_generated 1]
   \<and> generateImages (demo_failing 2 OtherValue) ''a cat'' 2 [1] = Pending
   \<and> generateImages (demo_failing 0 (ErrorInstance ''quota'')) ''a cat'' 2 [0, 1]
     = Rejected (ErrorInstance ''quota'')
   \<and> requests (generateImages_run (demo_failing 0 (ErrorInstance ''quota'')) ''a cat'' 2 [0, 1])
     = [(''a cat'', 0), (''a cat'', 1)]
   \<and> imagePromises (generateImages_run (demo_failing 0 (ErrorInstance ''quota'')) ''a cat'' 2 [0, 1])
       ! 0 = Rejected (ErrorInstance ''quota'')
   \<and> imagePromises (generateImages_run (demo_failing 0 (ErrorInstance ''quota'')) ''a cat'' 2 [0, 1])
       ! 1 = Fulfilled (demo_generated 1)
   \<and> imagePromises (generateImages_run (demo_failing 0 (ErrorInstance ''quota'')) ''a cat'' 2 [0])
       ! 1 = Pending"
proof -
  let ?f = "demo_failing 0 (ErrorInstance ''quota'')"
  have s: "set [1, 0] \<subseteq> {0..<2::nat}" "set [1] \<subseteq> {0..<2::nat}"
    "set [0, 1] \<subseteq> {0..<2::nat}" "set [0] \<subseteq> {0..<2::nat}"
    by simp_all
  have full: "set [1, 0] = {0..<2::nat}" by auto
  have part: "set [1] \<noteq> {0..<2::nat}"
  proof
    assume "set [1] = {0..<2::nat}"
    then have "(0::nat) \<in> set [1]" by simp
    then show False by simp
  qed
  have up: "[0..<2] = [0, Suc 0]" by (simp add: upt_conv_Cons)
  have 1: "generateImages (demo_failing 2 OtherValue) ''a cat'' 2 [1, 0]
     = Fulfilled [demo_generated 0, demo_generated 1]"
    by (subst generateImages_all_or_nothing [OF s(1), THEN conjunct1], subst full)
      (simp add: demo_promise_ok up)
  have 2: "generateImages (demo_failing 2 OtherValue) ''a cat'' 2 [1] = Pending"
  proof -
    have "find (\<lambda>i. isl (imagePromise (demo_failing 2 OtherValue) ''a cat'' i)) [1] = None"
      by (simp add: demo_promise_ok)
    then show ?thesis
      by (subst generateImages_all_or_nothing [OF s(2), THEN conjunct1])
        (simp only: part if_False option.case)
  qed
  note t = generateImages_all_or_nothing [OF s(3), of ?f "''a cat''"]
  note u = generateImages_all_or_nothing [OF s(4), of ?f "''a cat''"]
  have 3: "generateImages ?f ''a cat'' 2 [0, 1] = Rejected (ErrorInstance ''quota'')"
    by (subst t [THEN conjunct1]) (simp add: demo_promise_ok demo_promise_fails)
  have 4: "requests (generateImages_run ?f ''a cat'' 2 [0, 1]) = [(''a cat'', 0), (''a cat'', 1)]"
    by (subst t [THEN conjunct2, THEN conjunct1]) (simp add: up)
  from t have all2: "\<forall>i<2. imagePromises (generateImages_run ?f ''a cat'' 2 [0, 1]) ! i =
             (if i \<in> set [0, 1]
              then (case imagePromise ?f ''a cat'' i of
                      Inl err \<Rightarrow> Rejected err
                    | Inr imageFile \<Rightarrow> Fulfilled imageFile)
              else Pending)"
    by (elim conjE)
  from u have all1: "\<forall>i<2. imagePromises (generateImages_run ?f ''a cat'' 2 [0]) ! i =
             (if i \<in> set [0]
              then (case imagePromise ?f ''a cat'' i of
                      Inl err \<Rightarrow> Rejected err
                    | Inr imageFile \<Rightarrow> Fulfilled imageFile)
              else Pending)"
    by (elim conjE)
  have 5: "imagePromises (generateImages_run ?f ''a cat'' 2 [0, 1]) ! 0
             = Rejected (ErrorInstance ''quota'')"
    using all2 [rule_format, of 0] by (simp add: demo_promise_fails)
  have 6: "imagePromises (generateImages_run ?f ''a cat'' 2 [0, 1]) ! 1
             = Fulfilled (demo_generated 1)"
    using all2 [rule_format, of 1] by (simp add: demo_promise_ok)
  have 7: "imagePromises (generateImages_run ?f ''a cat'' 2 [0]) ! 1 = Pending"
    using all1 [rule_format, of 1] by simp
  from 1 2 3 4 5 6 7 show ?thesis by (intro conjI)
qed

text \<open>
  Claim C1, as stated, fails. With two calls of which the first fails and the second
  succeeds: once the first call has settled, and before the second has,
  \<^verbatim>\<open>generateImages\<close> has already thrown; and when both have settled its result is still
  that error, not the list of the successful assets.
\<close>
theorem generateImages_rejects_early:
  "imagePromise (demo_failing 0 (ErrorInstance ''quota'')) ''a cat'' 0
     = Inl (ErrorInstance ''quota'')
   \<and> imagePromise (demo_failing 0 (ErrorInstance ''quota'')) ''a cat'' 1
     = Inr (demo_generated 1)
   \<and> generateImages (demo_failing 0 (ErrorInstance ''quota'')) ''a cat'' 2 [0]
     = Rejected (ErrorInstance ''quota'')
   \<and> 1 \<notin> set [0::nat]
   \<and> generateImages (demo_failing 0 (ErrorInstance ''quota'')) ''a cat'' 2 [0, 1]
     = Rejected (ErrorInstance ''quota'')
   \<and> generateImages (demo_failing 0 (ErrorInstance ''quota'')) ''a cat'' 2 [0, 1]
     \<noteq> Fulfilled [demo_generated 1]"
  by (simp add: generateImages_def generateImages_run_def promiseSettles_def startImages_def
        promise_all_init_def promise_all_step_def demo_promise_ok demo_promise_fails)


section \<open>Properties of the live-status dialog\<close>

lemma spread_items: "spread (map (\<lambda>j. Item (f j)) xs) = map (\<lambda>j. Item (f j)) xs"
  by (simp add: spread_def)

lemma setResult_items:
  assumes "i < n"
  shows "setResult i r (map (\<lambda>j. Item (f j)) [0..<n]) = map (\<lambda>j. Item ((f(i := r)) j)) [0..<n]"
  using assms
  by (auto simp add: setResult_def spread_items assign_def intro!: nth_equalityI
        simp: nth_list_update)

lemma settle_results:
  "generationResults (settle e p st i) =
     setResult i (slotResult (slotOutcome e p i)) (generationResults st)"
  by (simp add: settle_def slotResult_def split: sum.splits)

lemma settle_selected: "selectedIndices (settle e p st i) = selectedIndices st"
  by (simp add: settle_def split: sum.splits)

lemma settle_status: "generationStatus (settle e p st i) = generationStatus st"
  by (simp add: settle_def split: sum.splits)

lemma fold_settle_selected:
  "selectedIndices (foldl (settle e p) st settled) = selectedIndices st"
  by (induction settled rule: rev_induct) (simp_all add: settle_selected)

lemma fold_settle_status:
  "generationStatus (foldl (settle e p) st settled) = generationStatus st"
  by (induction settled rule: rev_induct) (simp_all add: settle_status)

lemma fold_settle_results:
  assumes "set settled \<subseteq> {0..<n}"
    and "generationResults st = replicate n (Item pendingResult)"
  shows "generationResults (foldl (settle e p) st settled) =
           map (\<lambda>j. Item (if j \<in> set settled then slotResult (slotOutcome e p j)
                           else pendingResult)) [0..<n]"
  using assms(1)
proof (induction settled rule: rev_induct)
  case Nil
  show ?case by (simp add: assms(2) map_replicate_trivial)
next
  case (snoc i settled)
  then have i: "i < n" and sub: "set settled \<subseteq> {0..<n}" by auto
  have "generationResults (foldl (settle e p) st (settled @ [i])) =
          setResult i (slotResult (slotOutcome e p i))
            (map (\<lambda>j. Item (if j \<in> set settled then slotResult (slotOutcome e p j)
                             else pendingResult)) [0..<n])"
    by (simp add: settle_results snoc.IH [OF sub])
  also have "\<dots> = map (\<lambda>j. Item (if j \<in> set (settled @ [i]) then slotResult (slotOutcome e p j)
                                else pendingResult)) [0..<n]"
    by (subst setResult_items [OF i]) auto
  finally show ?case .
qed

lemma handleGenerate_results:
  assumes "trim (dlg_prompt st) \<noteq> []" and "set settled \<subseteq> {0..<numberOfImages st}"
  shows "generationResults (handleGenerate e settled st) =
           map (\<lambda>j. Item (if j \<in> set settled then slotResult (slotOutcome e (dlg_prompt st) j)
                           else pendingResult)) [0..<numberOfImages st]"
  using assms
  by (simp add: handleGenerate_def Let_def fold_settle_results pendingResult_def)

lemma handleGenerate_status:
  assumes "trim (dlg_prompt st) \<noteq> []"
  shows "generationStatus (handleGenerate e settled st) =
           (if {0..<numberOfImages st} \<subseteq> set settled then finished else generating)"
  using assms
  by (auto simp add: handleGenerate_def Let_def fold_settle_status list_all_iff)

lemma at_items: "j < n \<Longrightarrow> at (map (\<lambda>j. Item (f j)) [0..<n]) j = Some (f j)"
  by (simp add: at_def)

lemma trim_demo: "trim ''a cat'' \<noteq> []"
  by (simp add: trim_def trimStart_def trimEnd_def white_space_def)

lemma trim_unicode:
  "trim [CHR 0xC2, CHR 0xA0, CHR 0x20, CHR 0xE2, CHR 0x80, CHR 0xA8] = []"
  "trim ([CHR 0xC2, CHR 0xA0] @ ''  a cat '' @ [CHR 0xE3, CHR 0x80, CHR 0x80, CHR 0x0A]) = ''a cat''"
  by (simp_all add: trim_def trimStart_def trimEnd_def white_space_def)

lemma blank_unicode_prompt:
  "generationStatus (handleGenerate e settled (setPrompt [CHR 0xC2, CHR 0xA0] st)) = finished"
  "selectedIndices (handleGenerate e settled (setPrompt [CHR 0xC2, CHR 0xA0] st))
     = selectedIndices st"
  by (simp_all add: handleGenerate_def setPrompt_def trim_def trimStart_def trimEnd_def
        white_space_def)

lemma demo_slot_ok: "i \<noteq> k \<Longrightarrow> slotOutcome (demo_failing k err) p i = Inr (demo_generated i)"
  by (simp add: slotOutcome_def demo_failing_def demo_env_def responseParts_def
        base64ToImageFile_def demo_generated_def)

lemma demo_slot_fails: "slotOutcome (demo_failing k err) p k = Inl err"
  by (simp add: slotOutcome_def demo_failing_def)

text \<open>
  Claim C2. With a prompt that is not blank, four requests, the request of slot \<open>k\<close>
  failing and the other three succeeding, at any moment of the run (the calls in
  \<open>settled\<close> have settled, in that order): the array of results has length 4; a slot that
  has not settled is pending; slot \<open>k\<close>, once settled, is in the error state with the
  message of its error; every other slot, once settled, is in the success state with its
  image, whether or not slot \<open>k\<close> has settled; and the dialog is finished exactly when all
  four have settled. The claim's slot 2 is \<open>k = 2\<close>.
\<close>
theorem fan_out_partial_failure:
  assumes "trim (dlg_prompt st) \<noteq> []" and "numberOfImages st = 4" and "k < 4"
    and "slotOutcome e (dlg_prompt st) k = Inl err"
    and "\<forall>j<4. j \<noteq> k \<longrightarrow> slotOutcome e (dlg_prompt st) j = Inr (img j)"
    and "set settled \<subseteq> {0..<4}"
  shows "length (generationResults (handleGenerate e settled st)) = 4
       \<and> (\<forall>j<4. at (generationResults (handleGenerate e settled st)) j =
             Some (if j \<notin> set settled then \<lparr>status = st_pending, data = None, error = None\<rparr>
                   else if j = k
                   then \<lparr>status = st_error, data = None, error = Some (errorMessage err)\<rparr>
                   else \<lparr>status = st_success, data = Some (img j), error = None\<rparr>))
       \<and> generationStatus (handleGenerate e settled st) =
           (if set settled = {0..<4} then finished else generating)"
proof -
  have res: "generationResults (handleGenerate e settled st) =
           map (\<lambda>j. Item (if j \<in> set settled then slotResult (slotOutcome e (dlg_prompt st) j)
                           else pendingResult)) [0..<4]"
    using handleGenerate_results [of st settled e] assms(1,2,6) by simp
  have len: "length (generationResults (handleGenerate e settled st)) = 4"
    by (simp add: res)
  have slots: "at (generationResults (handleGenerate e settled st)) j =
             Some (if j \<notin> set settled then \<lparr>status = st_pending, data = None, error = None\<rparr>
                   else if j = k
                   then \<lparr>status = st_error, data = None, error = Some (errorMessage err)\<rparr>
                   else \<lparr>status = st_success, data = Some (img j), error = None\<rparr>)"
    if "j < 4" for j
    using that assms(4,5)
    by (simp add: res at_items slotResult_def pendingResult_def)
  have st: "generationStatus (handleGenerate e settled st) =
           (if set settled = {0..<4} then finished else generating)"
    using handleGenerate_status [of st e settled] assms(1,2,6) by auto
  from len slots st show ?thesis by blast
qed

text \<open>
  Claim C9, as amended. For a slot whose call has failed, the message stored in the slot
  is "An unknown error occurred." when the value thrown is not an \<^verbatim>\<open>Error\<close>, and is the
  error's own message, as it is, when the value thrown is an \<^verbatim>\<open>Error\<close>.
\<close>
theorem failure_message_default:
  assumes "trim (dlg_prompt st) \<noteq> []" and "set settled \<subseteq> {0..<numberOfImages st}"
    and "i \<in> set settled" and "slotOutcome e (dlg_prompt st) i = Inl err"
  shows "(err = OtherValue \<longrightarrow>
            at (generationResults (handleGenerate e settled st)) i =
              Some \<lparr>status = st_error, data = None,
                    error = Some ''An unknown error occurred.''\<rparr>)
       \<and> (\<forall>m. err = ErrorInstance m \<longrightarrow>
            at (generationResults (handleGenerate e settled st)) i =
              Some \<lparr>status = st_error, data = None, error = Some m\<rparr>)"
proof -
  have "i < numberOfImages st" using assms(2,3) by auto
  then have "at (generationResults (handleGenerate e settled st)) i =
      Some \<lparr>status = st_error, data = None, error = Some (errorMessage err)\<rparr>"
    using assms by (simp add: handleGenerate_results at_items slotResult_def)
  then show ?thesis by (simp add: errorMessage_def)
qed

lemma countSuccess_items:
  "countSuccess e (map (\<lambda>j. Item (f j)) xs) =
     Inr (length (filter (\<lambda>j. status (f j) = st_success) xs))"
  by (induction xs) simp_all

lemma toggle_not_success:
  "map_option status (at (generationResults st) index) \<noteq> Some st_success \<Longrightarrow>
   toggleSelection_live e maxImagesToAdd index st = Inr st"
  by (simp add: toggleSelection_live_def)

lemma toggle_keeps_selection_ok:
  assumes "selection_ok e maxImagesToAdd st"
    and "toggleSelection_live e maxImagesToAdd index st = Inr st'"
  shows "selection_ok e maxImagesToAdd st'"
proof (cases "map_option status (at (generationResults st) index) = Some st_success")
  case False
  then show ?thesis using assms by (simp add: toggleSelection_live_def)
next
  case succ: True
  obtain n where n: "countSuccess e (generationResults st) = Inr n"
    and le: "int (length (selectedIndices st)) \<le> min maxImagesToAdd (int n)"
    and all: "list_all (\<lambda>i. map_option status (at (generationResults st) i) = Some st_success)
                (selectedIndices st)"
    using assms(1) by (auto simp add: selection_ok_def split: sum.splits)
  show ?thesis
  proof (cases "index \<in> set (selectedIndices st)")
    case True
    then have st': "st' = st\<lparr>selectedIndices := filter (\<lambda>i. i \<noteq> index) (selectedIndices st)\<rparr>"
      using assms(2) succ by (simp add: toggleSelection_live_def)
    have "length (filter (\<lambda>i. i \<noteq> index) (selectedIndices st)) \<le> length (selectedIndices st)"
      by simp
    with le have "int (length (filter (\<lambda>i. i \<noteq> index) (selectedIndices st)))
                    \<le> min maxImagesToAdd (int n)"
      by linarith
    with all show ?thesis
      by (simp add: st' selection_ok_def n list_all_iff)
  next
    case False
    then have "st' = st \<or> (int (length (selectedIndices st)) < min maxImagesToAdd (int n)
                 \<and> st' = st\<lparr>selectedIndices := selectedIndices st @ [index]\<rparr>)"
      using assms(2) succ n by (auto simp add: toggleSelection_live_def Let_def split: if_splits)
    then show ?thesis
      using assms(1) all succ n by (auto simp add: selection_ok_def)
  qed
qed

theorem fan_out_partial_failure_witness:
  "length (generationResults
      (handleGenerate (demo_failing 2 (ErrorInstance ''quota'')) [3, 0, 2, 1] (demo_dialog 4))) = 4
   \<and> at (generationResults
      (handleGenerate (demo_failing 2 (ErrorInstance ''quota'')) [3, 0, 2, 1] (demo_dialog 4))) 2
       = Some \<lparr>status = st_error, data = None, error = Some ''quota''\<rparr>
   \<and> at (generationResults
      (handleGenerate (demo_failing 2 (ErrorInstance ''quota'')) [3, 0, 2, 1] (demo_dialog 4))) 0
       = Some \<lparr>status = st_success, data = Some (demo_generated 0), error = None\<rparr>
   \<and> at (generationResults
      (handleGenerate (demo_failing 2 (ErrorInstance ''quota'')) [3, 0, 2, 1] (demo_dialog 4))) 1
       = Some \<lparr>status = st_success, data = Some (demo_generated 1), error = None\<rparr>
   \<and> at (generationResults
      (handleGenerate (demo_failing 2 (ErrorInstance ''quota'')) [3, 0, 2, 1] (demo_dialog 4))) 3
       = Some \<lparr>status = st_success, data = Some (demo_generated 3), error = None\<rparr>
   \<and> generationStatus
      (handleGenerate (demo_failing 2 (ErrorInstance ''quota'')) [3, 0, 2, 1] (demo_dialog 4))
       = finished
   \<and> at (generationResults
      (handleGenerate (demo_failing 2 (ErrorInstance ''quota'')) [3, 0] (demo_dialog 4))) 3
       = Some \<lparr>status = st_success, data = Some (demo_generated 3), error = None\<rparr>
   \<and> at (generationResults
      (handleGenerate (demo_failing 2 (ErrorInstance ''quota'')) [3, 0] (demo_dialog 4))) 2
       = Some \<lparr>status = st_pending, data = None, error = None\<rparr>
   \<and> generationStatus
      (handleGenerate (demo_failing 2 (ErrorInstance ''quota'')) [3, 0] (demo_dialog 4))
       = generating"
proof -
  let ?e = "demo_failing 2 (ErrorInstance ''quota'')"
  have h: "trim (dlg_prompt (demo_dialog 4)) \<noteq> []" "numberOfImages (demo_dialog 4) = 4"
    "(2::nat) < 4"
    "slotOutcome ?e (dlg_prompt (demo_dialog 4)) 2 = Inl (ErrorInstance ''quota'')"
    "\<forall>j<4. j \<noteq> 2 \<longrightarrow> slotOutcome ?e (dlg_prompt (demo_dialog 4)) j = Inr (demo_generated j)"
    by (simp_all add: demo_dialog_def trim_demo demo_slot_ok demo_slot_fails)
  have s: "set [3, 0, 2, 1] \<subseteq> {0..<4::nat}" "set [3, 0] \<subseteq> {0..<4::nat}"
    by simp_all
  have full: "set [3, 0, 2, 1] = {0..<4::nat}" by auto
  have part: "set [3, 0] \<noteq> {0..<4::nat}"
  proof
    assume "set [3, 0] = {0..<4::nat}"
    then have "(1::nat) \<in> set [3, 0]" by simp
    then show False by simp
  qed
  note a = fan_out_partial_failure [OF h s(1)]
  note b = fan_out_partial_failure [OF h s(2)]
  from a have a1: "length (generationResults (handleGenerate ?e [3, 0, 2, 1] (demo_dialog 4))) = 4"
    by (elim conjE)
  from a have a2: "\<forall>j<4. at (generationResults (handleGenerate ?e [3, 0, 2, 1] (demo_dialog 4))) j =
             Some (if j \<notin> set [3, 0, 2, 1] then \<lparr>status = st_pending, data = None, error = None\<rparr>
                   else if j = 2
                   then \<lparr>status = st_error, data = None, error = Some (errorMessage (ErrorInstance ''quota''))\<rparr>
                   else \<lparr>status = st_success, data = Some (demo_generated j), error = None\<rparr>)"
    by (elim conjE)
  from a full have a3: "generationStatus (handleGenerate ?e [3, 0, 2, 1] (demo_dialog 4)) = finished"
    by (elim conjE) simp
  from b have b2: "\<forall>j<4. at (generationResults (handleGenerate ?e [3, 0] (demo_dialog 4))) j =
             Some (if j \<notin> set [3, 0] then \<lparr>status = st_pending, data = None, error = None\<rparr>
                   else if j = 2
                   then \<lparr>status = st_error, data = None, error = Some (errorMessage (ErrorInstance ''quota''))\<rparr>
                   else \<lparr>status = st_success, data = Some (demo_generated j), error = None\<rparr>)"
    by (elim conjE)
  from b part have b3: "generationStatus (handleGenerate ?e [3, 0] (demo_dialog 4)) = generating"
    by (elim conjE) simp
  show ?thesis
    using a1 a2 [rule_format, of 0] a2 [rule_format, of 1] a2 [rule_format, of 2]
      a2 [rule_format, of 3] a3 b2 [rule_format, of 2] b2 [rule_format, of 3] b3
    by (simp add: errorMessage_def)
qed

theorem failure_message_default_witness:
  "at (generationResults (handleGenerate (demo_failing 1 OtherValue) [1, 0] (demo_dialog 2))) 1
     = Some \<lparr>status = st_error, data = None, error = Some ''An unknown error occurred.''\<rparr>
   \<and> at (generationResults
        (handleGenerate (demo_failing 1 (ErrorInstance ''quota'')) [1, 0] (demo_dialog 2))) 1
     = Some \<lparr>status = st_error, data = None, error = Some ''quota''\<rparr>"
proof -
  have h: "trim (dlg_prompt (demo_dialog 2)) \<noteq> []"
    "set [1, 0] \<subseteq> {0..<numberOfImages (demo_dialog 2)}" "(1::nat) \<in> set [1, 0]"
    by (simp_all add: demo_dialog_def trim_demo)
  have f: "slotOutcome (demo_failing 1 err) (dlg_prompt (demo_dialog 2)) 1 = Inl err" for err
    by (rule demo_slot_fails)
  show ?thesis
    using failure_message_default [OF h f [of OtherValue]]
      failure_message_default [OF h f [of "ErrorInstance ''quota''"]]
    by simp
qed

text \<open>
  Claim C9, as stated, fails. An \<^verbatim>\<open>Error\<close> built without a message carries the empty
  message. When the call of slot 1 fails with such an error, the message stored in the
  slot is the empty string, not the generic one.
\<close>
theorem empty_message_is_kept:
  "slotOutcome (demo_failing 1 (ErrorInstance '''')) ''a cat'' 1 = Inl (ErrorInstance '''')
   \<and> at (generationResults
          (handleGenerate (demo_failing 1 (ErrorInstance '''')) [1, 0] (demo_dialog 2))) 1
       = Some \<lparr>status = st_error, data = None, error = Some ''''\<rparr>
   \<and> '''' \<noteq> ''An unknown error occurred.''"
proof -
  have p: "dlg_prompt (demo_dialog 2) = ''a cat''" "numberOfImages (demo_dialog 2) = 2"
    by (simp_all add: demo_dialog_def)
  have "generationResults
          (handleGenerate (demo_failing 1 (ErrorInstance '''')) [1, 0] (demo_dialog 2)) =
        map (\<lambda>j. Item (if j \<in> set [1, 0]
                         then slotResult (slotOutcome (demo_failing 1 (ErrorInstance ''''))
                                (dlg_prompt (demo_dialog 2)) j)
                         else pendingResult)) [0..<numberOfImages (demo_dialog 2)]"
    by (rule handleGenerate_results) (simp_all add: p trim_demo)
  then have "at (generationResults
          (handleGenerate (demo_failing 1 (ErrorInstance '''')) [1, 0] (demo_dialog 2))) 1
       = Some (slotResult (slotOutcome (demo_failing 1 (ErrorInstance '''')) ''a cat'' 1))"
    by (simp add: p at_items)
  then show ?thesis
    by (simp add: demo_slot_fails slotResult_def errorMessage_def)
qed

lemma fold_settle_prompt: "dlg_prompt (foldl (settle e p) st settled) = dlg_prompt st"
  by (induction settled rule: rev_induct) (simp_all add: settle_def split: sum.splits)

lemma demo_finished_results:
  "generationResults demo_finished =
     [Item \<lparr>status = st_success, data = Some (demo_generated 0), error = None\<rparr>,
      Item \<lparr>status = st_success, data = Some (demo_generated 1), error = None\<rparr>]"
  "selectedIndices demo_finished = []"
  "dlg_prompt demo_finished = ''a cat''"
  "generationStatus demo_finished = finished"
proof -
  have o: "slotOutcome demo_env ''a cat'' 0 = Inr (demo_generated 0)"
    "slotOutcome demo_env ''a cat'' 1 = Inr (demo_generated 1)"
    by (simp_all add: slotOutcome_def demo_env_def responseParts_def base64ToImageFile_def
          demo_generated_def)
  have up: "[0..<2] = [0, Suc 0]" by (simp add: upt_conv_Cons)
  show "generationResults demo_finished =
     [Item \<lparr>status = st_success, data = Some (demo_generated 0), error = None\<rparr>,
      Item \<lparr>status = st_success, data = Some (demo_generated 1), error = None\<rparr>]"
    using handleGenerate_results [of "demo_dialog 2" "[0, 1]" demo_env] o
    by (simp add: demo_finished_def demo_dialog_def trim_demo up slotResult_def)
  show "selectedIndices demo_finished = []"
    by (simp add: demo_finished_def handleGenerate_def Let_def demo_dialog_def trim_demo
          fold_settle_selected del: foldl_Cons foldl_Nil)
  show "dlg_prompt demo_finished = ''a cat''"
    by (simp add: demo_finished_def handleGenerate_def Let_def demo_dialog_def trim_demo
          fold_settle_prompt del: foldl_Cons foldl_Nil)
  show "generationStatus demo_finished = finished"
    using handleGenerate_status [of "demo_dialog 2" demo_env "[0, 1]"]
    by (auto simp add: demo_finished_def demo_dialog_def trim_demo)
qed

text \<open>
  Claim C10 fails on the path of \<^verbatim>\<open>handleGenerate\<close> for a blank prompt. Two images are
  generated and both are selected; the selection is in order. The prompt is then
  cleared and Generate is pressed: the results become the single error entry, the
  selection is still \<open>[0, 1]\<close>, and it is no longer in order (slot 0 is an error, there is
  no slot 1, and two indices are selected with no successful slot). The path for a prompt
  that is not blank clears the selection; this one does not.
\<close>
theorem stale_selection_after_empty_prompt:
  "toggleSelection_live demo_env 2 0 demo_finished
     = Inr (demo_finished\<lparr>selectedIndices := [0]\<rparr>)
   \<and> toggleSelection_live demo_env 2 1 (demo_finished\<lparr>selectedIndices := [0]\<rparr>)
     = Inr (demo_finished\<lparr>selectedIndices := [0, 1]\<rparr>)
   \<and> selection_ok demo_env 2 (demo_finished\<lparr>selectedIndices := [0, 1]\<rparr>)
   \<and> selectedIndices
       (handleGenerate demo_env [] (setPrompt '''' (demo_finished\<lparr>selectedIndices := [0, 1]\<rparr>)))
     = [0, 1]
   \<and> generationResults
       (handleGenerate demo_env [] (setPrompt '''' (demo_finished\<lparr>selectedIndices := [0, 1]\<rparr>)))
     = [Item \<lparr>status = st_error, data = None,
              error = Some ''Please enter a prompt to generate images.''\<rparr>]
   \<and> \<not> selection_ok demo_env 2
       (handleGenerate demo_env [] (setPrompt '''' (demo_finished\<lparr>selectedIndices := [0, 1]\<rparr>)))"
proof -
  have 1: "toggleSelection_live demo_env 2 0 demo_finished
     = Inr (demo_finished\<lparr>selectedIndices := [0]\<rparr>)"
    by (simp add: toggleSelection_live_def demo_finished_results at_def)
  have 2: "toggleSelection_live demo_env 2 1 (demo_finished\<lparr>selectedIndices := [0]\<rparr>)
     = Inr (demo_finished\<lparr>selectedIndices := [0, 1]\<rparr>)"
    by (simp add: toggleSelection_live_def demo_finished_results at_def)
  have 3: "selection_ok demo_env 2 (demo_finished\<lparr>selectedIndices := [0, 1]\<rparr>)"
    by (simp add: selection_ok_def demo_finished_results at_def)
  let ?sel = "demo_finished\<lparr>selectedIndices := [0, 1]\<rparr>"
  have 4: "handleGenerate demo_env [] (setPrompt '''' ?sel)
     = ?sel\<lparr>dlg_prompt := '''',
          generationResults := [Item \<lparr>status = st_error, data = None,
              error = Some ''Please enter a prompt to generate images.''\<rparr>],
          generationStatus := finished\<rparr>"
    by (simp add: handleGenerate_def setPrompt_def trim_def trimStart_def trimEnd_def)
  have 5: "selectedIndices (handleGenerate demo_env [] (setPrompt '''' ?sel)) = [0, 1]"
    by (subst 4) simp
  have 6: "generationResults (handleGenerate demo_env [] (setPrompt '''' ?sel))
     = [Item \<lparr>status = st_error, data = None,
              error = Some ''Please enter a prompt to generate images.''\<rparr>]"
    by (subst 4) simp
  have 7: "\<not> selection_ok demo_env 2 (handleGenerate demo_env [] (setPrompt '''' ?sel))"
    by (subst 4) (simp add: selection_ok_def at_def)
  from 1 2 3 5 6 7 show ?thesis by blast
qed

end
